theory Spec2Isabelle
  imports Complex_Main
begin

section \<open>Python values\<close>

text \<open>
  The two adapters (\<^verbatim>\<open>src/flowise.py\<close>, \<^verbatim>\<open>src/n8n.py\<close>) handle values that come out of
  JSON documents: the conversation body, the request payload, the decoded response and the
  status notifications are all Python dicts, lists, strings and scalars. They are modelled
  by one datatype. A dict is an association list in insertion order (the order
  \<^verbatim>\<open>list(d.keys())\<close> shows); its keys are strings. A float is represented by the rational
  number it denotes (no arithmetic is done on response floats; NaN and the infinities are
  not represented).
\<close>

datatype pyval =
    PNone
  | PBool bool
  | PInt int
  | PFloat rat
  | PStr string
  | PList "pyval list"
  | PDict "(string \<times> pyval) list"

type_synonym pydict = "(string \<times> pyval) list"

text \<open>Truth value testing, as \<^verbatim>\<open>if x:\<close>, \<^verbatim>\<open>not x\<close> and \<^verbatim>\<open>x or y\<close> apply it.\<close>

fun truthy :: "pyval \<Rightarrow> bool" where
  "truthy PNone = False"
| "truthy (PBool b) = b"
| "truthy (PInt i) = (i \<noteq> 0)"
| "truthy (PFloat r) = (r \<noteq> 0)"
| "truthy (PStr s) = (s \<noteq> [])"
| "truthy (PList xs) = (xs \<noteq> [])"
| "truthy (PDict d) = (d \<noteq> [])"

definition py_or :: "pyval \<Rightarrow> pyval \<Rightarrow> pyval" where
  "py_or a b = (if truthy a then a else b)"

fun is_dict :: "pyval \<Rightarrow> bool" where
  "is_dict (PDict d) = True"
| "is_dict v = False"

fun is_str :: "pyval \<Rightarrow> bool" where
  "is_str (PStr s) = True"
| "is_str v = False"

text \<open>\<^verbatim>\<open>type(x).__name__\<close>\<close>

fun type_name :: "pyval \<Rightarrow> string" where
  "type_name PNone = ''NoneType''"
| "type_name (PBool b) = ''bool''"
| "type_name (PInt i) = ''int''"
| "type_name (PFloat r) = ''float''"
| "type_name (PStr s) = ''str''"
| "type_name (PList xs) = ''list''"
| "type_name (PDict d) = ''dict''"

text \<open>\<^verbatim>\<open>d.get(k)\<close> (None when the key is absent) and \<^verbatim>\<open>d.get(k, default)\<close>.\<close>

definition dict_get :: "pydict \<Rightarrow> string \<Rightarrow> pyval" where
  "dict_get d k = (case map_of d k of None \<Rightarrow> PNone | Some v \<Rightarrow> v)"

definition dict_get_default :: "pydict \<Rightarrow> string \<Rightarrow> pyval \<Rightarrow> pyval" where
  "dict_get_default d k dflt = (case map_of d k of None \<Rightarrow> dflt | Some v \<Rightarrow> v)"

text \<open>\<^verbatim>\<open>d[k] = v\<close>: an existing key keeps its position, a new key goes last.\<close>

fun dict_set :: "string \<Rightarrow> pyval \<Rightarrow> pydict \<Rightarrow> pydict" where
  "dict_set k v [] = [(k, v)]"
| "dict_set k v ((k', v') # d) =
     (if k = k' then (k, v) # d else (k', v') # dict_set k v d)"

section \<open>Exceptions\<close>

text \<open>
  Every exception the two files can meet. \<open>ValueError\<close> is the one the n8n adapter raises
  itself, with its text; \<open>RequestException\<close> stands for the subclasses that
  \<^verbatim>\<open>requests\<close> raises (connection errors, timeouts, read errors), with the class name and
  the text the library gave; \<open>JSONDecodeError\<close> is what \<^verbatim>\<open>response.json()\<close> and
  \<^verbatim>\<open>json.loads\<close> raise on a document that is not JSON. The others are raised by the
  interpreter.
\<close>

datatype exn =
    KeyError string
  | TypeError
  | AttributeError
  | IndexError
  | UnicodeDecodeError
  | JSONDecodeError
  | ValueError string
  | RequestException string string

fun exn_name :: "exn \<Rightarrow> string" where
  "exn_name (KeyError k) = ''KeyError''"
| "exn_name TypeError = ''TypeError''"
| "exn_name AttributeError = ''AttributeError''"
| "exn_name IndexError = ''IndexError''"
| "exn_name UnicodeDecodeError = ''UnicodeDecodeError''"
| "exn_name JSONDecodeError = ''JSONDecodeError''"
| "exn_name (ValueError m) = ''ValueError''"
| "exn_name (RequestException n m) = n"

section \<open>The Python library, as a parameter\<close>

text \<open>
  Three pieces of Python that the adapters call are not code of this repository. They are
  taken as parameters, so that every theorem holds whatever they compute:
  \<^item> \<open>str_of\<close>: \<^verbatim>\<open>str(x)\<close>, which is also how an f-string formats a value that is not a string;
  \<^item> \<open>loads\<close>: \<^verbatim>\<open>json.loads\<close>, with \<open>None\<close> for a \<^verbatim>\<open>JSONDecodeError\<close>;
  \<^item> \<open>interp_text\<close>: the text \<^verbatim>\<open>str(e)\<close> of an exception raised by the interpreter.
\<close>

record python =
  str_of :: "pyval \<Rightarrow> string"
  loads :: "string \<Rightarrow> pyval option"
  interp_text :: "exn \<Rightarrow> string"

text \<open>How an f-string formats a value: a string stands for itself.\<close>

definition fmt :: "python \<Rightarrow> pyval \<Rightarrow> string" where
  "fmt py v = (case v of PStr s \<Rightarrow> s | _ \<Rightarrow> str_of py v)"

text \<open>\<^verbatim>\<open>str(e)\<close>\<close>

definition exn_str :: "python \<Rightarrow> exn \<Rightarrow> string" where
  "exn_str py e =
     (case e of ValueError m \<Rightarrow> m
      | RequestException n m \<Rightarrow> m
      | _ \<Rightarrow> interp_text py e)"

text \<open>\<^verbatim>\<open>f"{type(e).__name__} - {str(e)}"\<close>, the way both files report a caught exception.\<close>

definition describe :: "python \<Rightarrow> exn \<Rightarrow> string" where
  "describe py e = exn_name e @ '' - '' @ exn_str py e"

section \<open>Effects\<close>

text \<open>
  What a call does to the outside world, in the order it does it: a notification delivered
  to the host's event emitter, the HTTP POST (URL, headers, JSON payload), and the closing
  of the HTTP response. Printing to standard output (the debug mode of the Flowise adapter)
  is not modelled; the expressions those prints evaluate cannot raise on the values above.
  The pacing delay after a notification (\<^verbatim>\<open>asyncio.sleep\<close>) is not modelled either.

  The event emitter is a host callback; the n8n adapter looks into its closure for the
  chat identifier, so an emitter is represented by the contents of its closure cells (the
  empty list when it has no closure). It is assumed not to raise.
\<close>

datatype effect =
    Emit pyval
  | Post string pyval pyval
  | Close

type_synonym emitter = "pyval list"

fun is_post :: "effect \<Rightarrow> bool" where
  "is_post (Post url headers payload) = True"
| "is_post e = False"

definition posts :: "effect list \<Rightarrow> effect list" where
  "posts tr = filter is_post tr"

fun is_close :: "effect \<Rightarrow> bool" where
  "is_close Close = True"
| "is_close e = False"

definition closes :: "effect list \<Rightarrow> effect list" where
  "closes tr = filter is_close tr"

definition quote :: string where
  "quote = [CHR 0x27]"

text \<open>The two notification shapes (both files build the \<^verbatim>\<open>"status"\<close> one the same way).\<close>

definition status_message :: "string \<Rightarrow> string \<Rightarrow> bool \<Rightarrow> pyval" where
  "status_message level message done =
     PDict [(''type'', PStr ''status''),
            (''data'', PDict [(''status'', PStr (if done then ''complete'' else ''in_progress'')),
                             (''level'', PStr level),
                             (''description'', PStr message),
                             (''done'', PBool done)])]"

definition chunk_message :: "string \<Rightarrow> string \<Rightarrow> pyval \<Rightarrow> pyval" where
  "chunk_message level message stream_content =
     PDict [(''type'', PStr ''chunk''),
            (''data'', PDict [(''status'', PStr ''in_progress''),
                             (''level'', PStr level),
                             (''description'', PStr message),
                             (''done'', PBool False),
                             (''content'', stream_content)])]"

definition error_dict :: "string \<Rightarrow> pyval" where
  "error_dict msg = PDict [(''error'', PStr msg)]"

section \<open>The n8n adapter: status notifications\<close>

text \<open>
  The valves of \<^verbatim>\<open>src/n8n.py\<close>. Times are real numbers (seconds); floating-point rounding
  is not modelled. The request timeout has no role in the model.
\<close>

record n8n_valves =
  n8n_url :: string
  n8n_bearer_token :: string
  input_field :: string
  response_field :: string
  emit_interval :: real
  n8n_enable_status_indicator :: bool

text \<open>
  \<^verbatim>\<open>Pipe.emit_status\<close> of \<^verbatim>\<open>src/n8n.py\<close>: \<open>current_time\<close> is what \<^verbatim>\<open>time.time()\<close>
  returned, \<open>prev\<close> is \<^verbatim>\<open>self.last_emit_time\<close>. The result is the notification delivered
  to the emitter, if any, and the new \<^verbatim>\<open>self.last_emit_time\<close>.
\<close>

definition n8n_emit_status ::
  "n8n_valves \<Rightarrow> emitter option \<Rightarrow> string \<Rightarrow> string \<Rightarrow> bool \<Rightarrow> real \<Rightarrow> real
     \<Rightarrow> pyval option \<times> real" where
  "n8n_emit_status v em level message done current_time prev =
     (if em \<noteq> None \<and> n8n_enable_status_indicator v
         \<and> (current_time - prev \<ge> emit_interval v \<or> done)
      then (Some (status_message level message done),
            if \<not> done then current_time else prev)
      else (None, prev))"

text \<open>
  A sequence of calls of \<^verbatim>\<open>emit_status\<close> on one \<^verbatim>\<open>Pipe\<close> object: each call has the
  time it reads, its level, its message and its \<open>done\<close> flag. \<open>n8n_emit_run\<close> lists what
  each call delivered.
\<close>

record emit_call =
  call_time :: real
  call_level :: string
  call_message :: string
  call_done :: bool

fun n8n_emit_run ::
  "n8n_valves \<Rightarrow> emitter option \<Rightarrow> real \<Rightarrow> emit_call list \<Rightarrow> pyval option list" where
  "n8n_emit_run v em prev [] = []"
| "n8n_emit_run v em prev (c # cs) =
     (case n8n_emit_status v em (call_level c) (call_message c) (call_done c) (call_time c) prev of
        (d, prev') \<Rightarrow> d # n8n_emit_run v em prev' cs)"

fun n8n_last_after :: "n8n_valves \<Rightarrow> emitter option \<Rightarrow> real \<Rightarrow> emit_call list \<Rightarrow> real" where
  "n8n_last_after v em prev [] = prev"
| "n8n_last_after v em prev (c # cs) =
     n8n_last_after v em
       (snd (n8n_emit_status v em (call_level c) (call_message c) (call_done c) (call_time c) prev))
       cs"

section \<open>Python operations the adapters use\<close>

text \<open>
  Each operation that can raise returns \<open>Inl\<close> of the exception. \<open>subscript_last\<close> is
  \<^verbatim>\<open>x[-1]\<close>, \<open>subscript_key\<close> is \<^verbatim>\<open>x["k"]\<close>, \<open>slice_to\<close> is \<^verbatim>\<open>x[:n]\<close>,
  \<open>method_get\<close> is \<^verbatim>\<open>x.get("k")\<close> and \<open>py_iter\<close> lists what \<^verbatim>\<open>for y in x\<close> visits.
  (Slicing a dict raises \<^verbatim>\<open>TypeError\<close> up to Python 3.11 and \<^verbatim>\<open>KeyError\<close> from 3.12;
  the adapters treat the two alike.)
\<close>

fun subscript_last :: "pyval \<Rightarrow> exn + pyval" where
  "subscript_last (PList xs) = (if xs = [] then Inl IndexError else Inr (last xs))"
| "subscript_last (PStr s) = (if s = [] then Inl IndexError else Inr (PStr [last s]))"
| "subscript_last (PDict d) = Inl (KeyError ''-1'')"
| "subscript_last v = Inl TypeError"

fun subscript_key :: "pyval \<Rightarrow> string \<Rightarrow> exn + pyval" where
  "subscript_key (PDict d) k = (case map_of d k of None \<Rightarrow> Inl (KeyError k) | Some v \<Rightarrow> Inr v)"
| "subscript_key v k = Inl TypeError"

text \<open>\<^verbatim>\<open>messages[-1]["content"]\<close>\<close>

definition last_message_content :: "pyval \<Rightarrow> exn + pyval" where
  "last_message_content messages =
     (case subscript_last messages of
        Inl e \<Rightarrow> Inl e
      | Inr m \<Rightarrow> subscript_key m ''content'')"

fun slice_to :: "nat \<Rightarrow> pyval \<Rightarrow> exn + pyval" where
  "slice_to n (PStr s) = Inr (PStr (take n s))"
| "slice_to n (PList xs) = Inr (PList (take n xs))"
| "slice_to n v = Inl TypeError"

fun method_get :: "pyval \<Rightarrow> string \<Rightarrow> exn + pyval" where
  "method_get (PDict d) k = Inr (dict_get d k)"
| "method_get v k = Inl AttributeError"

fun py_iter :: "pyval \<Rightarrow> exn + pyval list" where
  "py_iter (PList xs) = Inr xs"
| "py_iter (PStr s) = Inr (map (\<lambda>c. PStr [c]) s)"
| "py_iter (PDict d) = Inr (map (\<lambda>kv. PStr (fst kv)) d)"
| "py_iter v = Inl TypeError"

text \<open>
  \<^verbatim>\<open>body.setdefault("messages", []).append(msg)\<close>: the key is created when it is absent;
  a value that is not a list has no \<^verbatim>\<open>append\<close>, and a body that is not a dict has no
  \<^verbatim>\<open>setdefault\<close>.
\<close>

definition append_message :: "pyval \<Rightarrow> pyval \<Rightarrow> exn + pyval" where
  "append_message body msg =
     (case body of
        PDict d \<Rightarrow>
          (case map_of d ''messages'' of
             None \<Rightarrow> Inr (PDict (dict_set ''messages'' (PList [msg]) d))
           | Some (PList ms) \<Rightarrow> Inr (PDict (dict_set ''messages'' (PList (ms @ [msg])) d))
           | Some _ \<Rightarrow> Inl AttributeError)
      | _ \<Rightarrow> Inl AttributeError)"

definition assistant_message :: "pyval \<Rightarrow> pyval" where
  "assistant_message c = PDict [(''role'', PStr ''assistant''), (''content'', c)]"

text \<open>The text of a \<^verbatim>\<open>str\<close>.\<close>

fun the_str :: "pyval \<Rightarrow> string" where
  "the_str (PStr s) = s"
| "the_str v = []"

text \<open>The messages of a conversation body, as a list (empty when there are none).\<close>

definition messages_of :: "pyval \<Rightarrow> pyval list" where
  "messages_of body =
     (case body of
        PDict d \<Rightarrow> (case map_of d ''messages'' of Some (PList ms) \<Rightarrow> ms | _ \<Rightarrow> [])
      | _ \<Rightarrow> [])"

text \<open>
  Strings. A decoded line of text is a list of 8-bit characters here, which covers ASCII and
  Latin-1 text; \<open>is_space\<close> lists the characters below 256 that \<^verbatim>\<open>str.strip()\<close> removes.
  \<open>contains s n\<close> is \<^verbatim>\<open>n in s\<close>.
\<close>

definition startswith :: "string \<Rightarrow> string \<Rightarrow> bool" where
  "startswith s p = (take (length p) s = p)"

definition is_space :: "char \<Rightarrow> bool" where
  "is_space c = (c \<in> set [CHR 0x09, CHR 0x0A, CHR 0x0B, CHR 0x0C, CHR 0x0D, CHR 0x1C, CHR 0x1D,
                           CHR 0x1E, CHR 0x1F, CHR 0x20, CHR 0x85, CHR 0xA0])"

definition strip :: "string \<Rightarrow> string" where
  "strip s = rev (dropWhile is_space (rev (dropWhile is_space s)))"

fun contains :: "string \<Rightarrow> string \<Rightarrow> bool" where
  "contains [] n = (n = [])"
| "contains (c # s) n = (startswith (c # s) n \<or> contains s n)"

section \<open>The HTTP response\<close>

text \<open>
  What \<^verbatim>\<open>requests.post\<close> hands back: the status code, the \<^verbatim>\<open>Content-Type\<close> header if
  there is one, the body as text (\<^verbatim>\<open>response.text\<close>), what \<^verbatim>\<open>response.json()\<close> does
  (the decoded document, or the exception it raises), and what \<^verbatim>\<open>response.iter_lines()\<close>
  yields. A line of the stream is given by its UTF-8 decoding: \<open>Line s\<close> is a line that
  decodes to \<open>s\<close> (the empty line is \<open>Line []\<close>), \<open>Undecodable\<close> is a non-empty line on
  which \<^verbatim>\<open>line.decode("utf-8")\<close> raises, and \<open>ReadError e\<close> is the iterator raising \<open>e\<close>
  instead of yielding a line. The POST itself either raises or returns a response.
\<close>

datatype sse_item =
    Line string
  | Undecodable
  | ReadError exn

record response =
  status_code :: int
  content_type :: "string option"
  body_text :: string
  json_result :: "exn + pyval"
  body_lines :: "sse_item list"

type_synonym post_result = "exn + response"

section \<open>The n8n adapter: pipe\<close>

text \<open>
  The state one call works on: \<^verbatim>\<open>self.last_emit_time\<close>, the number of times the clock
  has been read (\<open>clock k\<close> is what the \<open>k\<close>-th \<^verbatim>\<open>time.time()\<close> of the call returns), and
  the effects so far.
\<close>

record n8n_world =
  last_emit_time :: real
  clock_reads :: nat
  n8n_trace :: "effect list"

definition n8n_emit ::
  "n8n_valves \<Rightarrow> (nat \<Rightarrow> real) \<Rightarrow> emitter option \<Rightarrow> string \<Rightarrow> string \<Rightarrow> bool
     \<Rightarrow> n8n_world \<Rightarrow> n8n_world" where
  "n8n_emit v clock em level message done w =
     (case n8n_emit_status v em level message done (clock (clock_reads w)) (last_emit_time w) of
        (delivered, prev') \<Rightarrow>
          \<lparr>last_emit_time = prev',
           clock_reads = Suc (clock_reads w),
           n8n_trace = n8n_trace w @ (case delivered of None \<Rightarrow> [] | Some m \<Rightarrow> [Emit m])\<rparr>)"

text \<open>\<^verbatim>\<open>extract_event_info\<close>: the chat and message identifiers of the first closure cell that
  holds a dict.\<close>

fun first_dict_cell :: "pyval list \<Rightarrow> pyval \<times> pyval" where
  "first_dict_cell [] = (PNone, PNone)"
| "first_dict_cell (PDict d # cells) = (dict_get d ''chat_id'', dict_get d ''message_id'')"
| "first_dict_cell (c # cells) = first_dict_cell cells"

definition extract_event_info :: "emitter option \<Rightarrow> pyval \<times> pyval" where
  "extract_event_info em =
     (case em of
        None \<Rightarrow> (PNone, PNone)
      | Some cells \<Rightarrow> if cells = [] then (PNone, PNone) else first_dict_cell cells)"

text \<open>
  \<^verbatim>\<open>next((msg["content"] for msg in ... if msg.get("role") == "system"), None)\<close>: the
  content of the first message whose role is \<^verbatim>\<open>"system"\<close>.
\<close>

fun find_system_prompt :: "pyval list \<Rightarrow> exn + pyval" where
  "find_system_prompt [] = Inr PNone"
| "find_system_prompt (m # ms) =
     (case method_get m ''role'' of
        Inl e \<Rightarrow> Inl e
      | Inr role \<Rightarrow>
          if role = PStr ''system'' then subscript_key m ''content''
          else find_system_prompt ms)"

text \<open>The payload, lines 189 to 195.\<close>

definition n8n_payload :: "n8n_valves \<Rightarrow> pyval \<Rightarrow> pyval \<Rightarrow> pyval \<Rightarrow> pydict" where
  "n8n_payload v chat_id question system_prompt =
     (let p0 = [(''sessionId'', if chat_id \<noteq> PNone then chat_id else PStr ''unknown_session'')];
          p1 = dict_set (input_field v) question p0
      in if truthy system_prompt then dict_set ''systemPrompt'' system_prompt p1 else p1)"

definition n8n_headers :: "n8n_valves \<Rightarrow> pydict" where
  "n8n_headers v =
     [(''Authorization'', PStr (''Bearer '' @ n8n_bearer_token v)),
      (''Content-Type'', PStr ''application/json'')]"

text \<open>\<^verbatim>\<open>except ValueError\<close> also catches its subclasses.\<close>

fun is_value_error :: "exn \<Rightarrow> bool" where
  "is_value_error (ValueError m) = True"
| "is_value_error UnicodeDecodeError = True"
| "is_value_error JSONDecodeError = True"
| "is_value_error e = False"

text \<open>
  Lines 217 to 284, the classification of the response. The result is
  \<^verbatim>\<open>n8n_response_content\<close> (\<open>PNone\<close> while it is \<^verbatim>\<open>None\<close>), \<^verbatim>\<open>last_error_message\<close> and
  the world; \<open>Inl e\<close> when \<^verbatim>\<open>response.json()\<close> raises something the inner handlers do
  not catch.
\<close>

definition n8n_missing_field_message :: "python \<Rightarrow> n8n_valves \<Rightarrow> response \<Rightarrow> pyval \<Rightarrow> string" where
  "n8n_missing_field_message py v r data =
     ''N8N workflow responded successfully (status '' @ fmt py (PInt (status_code r)) @ '') ''
     @ ''but missing expected response field '' @ quote @ response_field v @ quote @ ''. ''
     @ ''Available keys: ''
     @ (case data of
          PDict d \<Rightarrow> fmt py (PList (map (\<lambda>kv. PStr (fst kv)) d))
        | _ \<Rightarrow> ''N/A'')
     @ ''. ''
     @ ''Response snippet: '' @ take 150 (body_text r) @ ''...''"

definition n8n_success_body ::
  "python \<Rightarrow> n8n_valves \<Rightarrow> (nat \<Rightarrow> real) \<Rightarrow> emitter option \<Rightarrow> response \<Rightarrow> n8n_world
     \<Rightarrow> exn + (pyval \<times> string option \<times> n8n_world)" where
  "n8n_success_body py v clock em r w =
     (case json_result r of
        Inl e \<Rightarrow>
          if e = JSONDecodeError then
            (let msg = ''N8N workflow responded successfully (status ''
                       @ fmt py (PInt (status_code r)) @ '') ''
                       @ ''but the response body is not valid JSON. ''
                       @ ''Response snippet: '' @ take 200 (body_text r) @ ''...''
             in Inr (PNone, Some msg, n8n_emit v clock em ''error'' msg True w))
          else if is_value_error e then
            (let msg = ''Error processing N8N response: '' @ exn_str py e
             in Inr (PNone, Some msg, n8n_emit v clock em ''error'' msg True w))
          else Inl e
      | Inr data0 \<Rightarrow>
          (case (case data0 of
                   PList xs \<Rightarrow>
                     (case xs of
                        [] \<Rightarrow> Inl (ValueError ''Received an empty list from N8N response.'')
                      | x # rest \<Rightarrow> Inr x)
                 | _ \<Rightarrow> Inr data0) of
             Inl e \<Rightarrow>
               (let msg = ''Error processing N8N response: '' @ exn_str py e
                in Inr (PNone, Some msg, n8n_emit v clock em ''error'' msg True w))
           | Inr data \<Rightarrow>
               (case (case data of PDict d \<Rightarrow> map_of d (response_field v) | _ \<Rightarrow> None) of
                  Some content \<Rightarrow> Inr (content, None, w)
                | None \<Rightarrow>
                    (let msg = n8n_missing_field_message py v r data
                     in Inr (PNone, Some msg, n8n_emit v clock em ''error'' msg True w)))))"

definition n8n_client_error_message :: "python \<Rightarrow> response \<Rightarrow> string" where
  "n8n_client_error_message py r =
     ''Client error: Received status code '' @ fmt py (PInt (status_code r))
     @ '' from N8N. '' @ ''This error ('' @ fmt py (PInt (status_code r))
     @ '') is typically not transient. Response: '' @ body_text r"

definition n8n_classify ::
  "python \<Rightarrow> n8n_valves \<Rightarrow> (nat \<Rightarrow> real) \<Rightarrow> emitter option \<Rightarrow> response \<Rightarrow> n8n_world
     \<Rightarrow> exn + (pyval \<times> string option \<times> n8n_world)" where
  "n8n_classify py v clock em r w =
     (if 200 \<le> status_code r \<and> status_code r < 300 then n8n_success_body py v clock em r w
      else if 400 \<le> status_code r \<and> status_code r < 500 then
        (let msg = n8n_client_error_message py r
         in Inr (PNone, Some msg, n8n_emit v clock em ''error'' msg True w))
      else
        (let msg = ''Unexpected HTTP error: Received status code ''
                   @ fmt py (PInt (status_code r)) @ '' from N8N. ''
                   @ ''Response: '' @ body_text r
         in Inr (PNone, Some msg, n8n_emit v clock em ''error'' msg True w)))"

text \<open>
  Lines 201 to 292, the \<^verbatim>\<open>try\<close> block: the notification, the POST, the classification,
  and the handler that catches every exception of the block.
\<close>

definition n8n_request_failed ::
  "python \<Rightarrow> n8n_valves \<Rightarrow> (nat \<Rightarrow> real) \<Rightarrow> emitter option \<Rightarrow> exn \<Rightarrow> n8n_world
     \<Rightarrow> pyval \<times> string option \<times> n8n_world" where
  "n8n_request_failed py v clock em e w =
     (let msg = ''Request to N8N failed: '' @ describe py e @ ''.''
      in (PNone, Some msg, n8n_emit v clock em ''warning'' msg False w))"

definition n8n_exchange ::
  "python \<Rightarrow> n8n_valves \<Rightarrow> (nat \<Rightarrow> real) \<Rightarrow> emitter option \<Rightarrow> post_result \<Rightarrow> pydict
     \<Rightarrow> n8n_world \<Rightarrow> pyval \<times> string option \<times> n8n_world" where
  "n8n_exchange py v clock em post payload w =
     (let w1 = n8n_emit v clock em ''info'' ''Sending request to N8N...'' False w;
          w2 = w1\<lparr>n8n_trace := n8n_trace w1
                    @ [Post (n8n_url v) (PDict (n8n_headers v)) (PDict payload)]\<rparr>
      in case post of
           Inl e \<Rightarrow> n8n_request_failed py v clock em e w2
         | Inr r \<Rightarrow>
             (case n8n_classify py v clock em r w2 of
                Inl e \<Rightarrow> n8n_request_failed py v clock em e w2
              | Inr res \<Rightarrow> res))"

text \<open>
  A call ends in a returned value or in an exception that leaves \<^verbatim>\<open>pipe\<close>; with it come
  the conversation body as the call leaves it and the world.
\<close>

type_synonym n8n_result = "(exn + pyval) \<times> pyval \<times> n8n_world"

text \<open>Lines 296 to 329.\<close>

definition n8n_final_error :: "string option \<Rightarrow> string" where
  "n8n_final_error last_error =
     (case last_error of
        Some m \<Rightarrow> if m \<noteq> [] then m
                  else ''An unknown error occurred during the N8N request.''
      | None \<Rightarrow> ''An unknown error occurred during the N8N request.'')"

definition n8n_finish ::
  "n8n_valves \<Rightarrow> (nat \<Rightarrow> real) \<Rightarrow> emitter option \<Rightarrow> pyval \<Rightarrow> pyval \<Rightarrow> string option
     \<Rightarrow> n8n_world \<Rightarrow> n8n_result" where
  "n8n_finish v clock em body content last_error w =
     (if content \<noteq> PNone then
        (case append_message body (assistant_message content) of
           Inl e \<Rightarrow> (Inl e, body, w)
         | Inr body' \<Rightarrow>
             (Inr content, body',
              n8n_emit v clock em ''info'' ''N8N workflow completed successfully.'' True w))
      else
        (let final_error_message = n8n_final_error last_error;
             w1 = n8n_emit v clock em ''error''
                    (''Final Error calling N8N: '' @ final_error_message) True w
         in case append_message body
                   (assistant_message
                      (PStr (''Error calling N8N workflow: '' @ final_error_message))) of
              Inl e \<Rightarrow> (Inl e, body, w1)
            | Inr body' \<Rightarrow> (Inr (error_dict final_error_message), body', w1)))"

text \<open>
  Lines 146 to 329, for a body that is a dict: \<open>n8n_prepare\<close> is lines 146 to 195, which
  end the call (\<open>Inl\<close>) or build the payload of the POST (\<open>Inr\<close>).
\<close>

definition n8n_no_messages :: string where
  "n8n_no_messages = ''Error: No messages found in the request body to process.''"

definition n8n_prepare ::
  "n8n_valves \<Rightarrow> (nat \<Rightarrow> real) \<Rightarrow> emitter option \<Rightarrow> pydict \<Rightarrow> n8n_world
     \<Rightarrow> n8n_result + (pydict \<times> n8n_world)" where
  "n8n_prepare v clock em d w =
     (let messages = dict_get_default d ''messages'' (PList [])
      in if \<not> truthy messages then
           (let w1 = n8n_emit v clock em ''error'' n8n_no_messages True w
            in case append_message (PDict d) (assistant_message (PStr n8n_no_messages)) of
                 Inl e \<Rightarrow> Inl (Inl e, PDict d, w1)
               | Inr body' \<Rightarrow> Inl (Inr (error_dict n8n_no_messages), body', w1))
         else
           (case last_message_content messages of
              Inl e \<Rightarrow> Inl (Inl e, PDict d, w)
            | Inr question \<Rightarrow>
                (let w1 = n8n_emit v clock em ''info'' ''Calling n8n workflow...'' False w;
                     chat_id = fst (extract_event_info em)
                 in case (case py_iter messages of
                            Inl e \<Rightarrow> Inl e
                          | Inr ms \<Rightarrow> find_system_prompt ms) of
                      Inl e \<Rightarrow> Inl (Inl e, PDict d, w1)
                    | Inr system_prompt \<Rightarrow>
                        Inr (n8n_payload v chat_id question system_prompt, w1))))"

definition n8n_pipe_dict ::
  "python \<Rightarrow> n8n_valves \<Rightarrow> (nat \<Rightarrow> real) \<Rightarrow> emitter option \<Rightarrow> post_result \<Rightarrow> pydict
     \<Rightarrow> n8n_world \<Rightarrow> n8n_result" where
  "n8n_pipe_dict py v clock em post d w =
     (case n8n_prepare v clock em d w of
        Inl result \<Rightarrow> result
      | Inr (payload, w1) \<Rightarrow>
          (case n8n_exchange py v clock em post payload w1 of
             (content, last_error, w2) \<Rightarrow>
               n8n_finish v clock em (PDict d) content last_error w2))"

text \<open>
  \<^verbatim>\<open>Pipe.pipe\<close> of \<^verbatim>\<open>src/n8n.py\<close>. \<open>post\<close> is what the POST does if the call gets to
  it, \<open>prev\<close> is \<^verbatim>\<open>self.last_emit_time\<close> when the call starts. For a body given as a
  string, the body in the result is the decoded value the call worked on (the string the
  caller holds cannot change).
\<close>

definition n8n_pipe ::
  "python \<Rightarrow> n8n_valves \<Rightarrow> (nat \<Rightarrow> real) \<Rightarrow> emitter option \<Rightarrow> post_result \<Rightarrow> pyval
     \<Rightarrow> real \<Rightarrow> n8n_result" where
  "n8n_pipe py v clock em post body prev =
     (let w = \<lparr>last_emit_time = prev, clock_reads = 0, n8n_trace = []\<rparr>
      in case body of
           PStr s \<Rightarrow>
             (case loads py s of
                None \<Rightarrow>
                  (let error_msg = ''Invalid JSON string received in '' @ quote @ ''body''
                                   @ quote @ ''.''
                   in (Inr (error_dict error_msg), body,
                       n8n_emit v clock em ''error'' error_msg True w))
              | Some parsed \<Rightarrow>
                  (case parsed of
                     PDict d \<Rightarrow> n8n_pipe_dict py v clock em post d w
                   | _ \<Rightarrow>
                       (let error_msg = ''Expected '' @ quote @ ''body'' @ quote
                                        @ '' to be a dictionary but got ''
                                        @ type_name parsed @ ''.''
                        in (Inr (error_dict error_msg), parsed,
                            n8n_emit v clock em ''error'' error_msg True w))))
         | PDict d \<Rightarrow> n8n_pipe_dict py v clock em post d w
         | _ \<Rightarrow>
             (let error_msg = ''Request body is not a valid dictionary.''
              in (Inr (error_dict error_msg), body,
                  n8n_emit v clock em ''error'' error_msg True w)))"

section \<open>The Flowise adapter\<close>

text \<open>
  The valves of \<^verbatim>\<open>src/flowise.py\<close> that the control flow reads. \<open>debug_mode\<close> only
  switches printing on; the timeout and the pacing delay have no role in the model.
\<close>

record flowise_valves =
  flowise_api_url :: string
  flowise_api_key :: "string option"
  flowise_enable_status_indicator :: bool
  enable_streaming :: bool
  debug_mode :: bool

text \<open>
  \<^verbatim>\<open>Pipe.emit_status\<close> of \<^verbatim>\<open>src/flowise.py\<close>: no throttle; an exception of the emitter
  would be caught and printed.
\<close>

definition flowise_emit_status ::
  "flowise_valves \<Rightarrow> emitter option \<Rightarrow> string \<Rightarrow> string \<Rightarrow> bool \<Rightarrow> bool \<Rightarrow> pyval
     \<Rightarrow> effect list \<Rightarrow> effect list" where
  "flowise_emit_status v em level message done is_stream_chunk stream_content tr =
     (if em \<noteq> None \<and> flowise_enable_status_indicator v then
        tr @ [Emit (if is_stream_chunk then chunk_message level message stream_content
                    else status_message level message done)]
      else tr)"

text \<open>The call sites that leave the two optional arguments at their defaults.\<close>

definition flowise_status ::
  "flowise_valves \<Rightarrow> emitter option \<Rightarrow> string \<Rightarrow> string \<Rightarrow> bool \<Rightarrow> effect list
     \<Rightarrow> effect list" where
  "flowise_status v em level message done tr =
     flowise_emit_status v em level message done False PNone tr"

text \<open>
  How a call of \<^verbatim>\<open>pipe\<close> leaves the \<^verbatim>\<open>try\<close> statement of lines 145 to 459: by a
  \<^verbatim>\<open>return\<close> inside it, or by falling out of it with \<^verbatim>\<open>full_response_content\<close> and
  \<^verbatim>\<open>last_error_message\<close> as they then are.
\<close>

datatype flowise_run =
    Returned pyval "effect list"
  | Finished pyval "string option" "effect list"

text \<open>
  Lines 292 to 356, the loop over the lines of the event stream. The state is
  \<^verbatim>\<open>full_response_content\<close>, \<^verbatim>\<open>chunk_count\<close> and the effects; with it comes the
  exception that ended the loop, if one did. The \<^verbatim>\<open>"end"\<close> event ends the loop by
  \<^verbatim>\<open>break\<close>, before the counter is incremented. A payload that is JSON but not an object
  has no \<^verbatim>\<open>get\<close>.
\<close>

fun sse_loop ::
  "python \<Rightarrow> flowise_valves \<Rightarrow> emitter option \<Rightarrow> sse_item list
     \<Rightarrow> string \<times> nat \<times> effect list \<Rightarrow> (string \<times> nat \<times> effect list) \<times> exn option" where
  "sse_loop py v em [] st = (st, None)"
| "sse_loop py v em (ReadError e # rest) st = (st, Some e)"
| "sse_loop py v em (Undecodable # rest) st = (st, Some UnicodeDecodeError)"
| "sse_loop py v em (Line decoded_line # rest) (content, chunk_count, tr) =
     (if decoded_line = [] then sse_loop py v em rest (content, chunk_count, tr)
      else if startswith decoded_line ''data:'' then
        (case loads py (strip (drop (length ''data:'') decoded_line)) of
           None \<Rightarrow> sse_loop py v em rest (content, chunk_count, tr)
         | Some event_data_json \<Rightarrow>
             (case event_data_json of
                PDict d \<Rightarrow>
                  (let inner_event_type = dict_get d ''event'';
                       inner_data_content = dict_get d ''data''
                   in if inner_event_type = PStr ''token'' \<and> is_str inner_data_content then
                        sse_loop py v em rest
                          (content @ the_str inner_data_content, Suc chunk_count,
                           flowise_emit_status v em ''info'' [] False True inner_data_content tr)
                      else if inner_event_type = PStr ''end'' then
                        ((content, chunk_count, tr), None)
                      else sse_loop py v em rest (content, Suc chunk_count, tr))
              | _ \<Rightarrow> ((content, chunk_count, tr), Some AttributeError)))
      else sse_loop py v em rest (content, chunk_count, tr))"

text \<open>The fields looked up in a JSON object, lines 275 to 280 and 396 to 402.\<close>

definition flowise_fallback_fields :: "python \<Rightarrow> pydict \<Rightarrow> pyval" where
  "flowise_fallback_fields py d =
     py_or (dict_get d ''text'')
       (py_or (dict_get d ''answer'')
          (py_or (dict_get d ''response'') (PStr (str_of py (PDict d)))))"

definition flowise_fields :: "python \<Rightarrow> pydict \<Rightarrow> pyval" where
  "flowise_fields py d =
     py_or (dict_get d ''text'')
       (py_or (dict_get d ''answer'')
          (py_or (dict_get d ''response'')
             (py_or (dict_get d ''output'') (PStr (str_of py (PDict d))))))"

text \<open>
  Lines 250 to 378, streaming enabled. \<^verbatim>\<open>with response:\<close> closes the response when its
  block is left, and the \<^verbatim>\<open>finally\<close> clause closes it again. The result is
  \<^verbatim>\<open>full_response_content\<close> and the effects.
\<close>

definition flowise_streaming ::
  "python \<Rightarrow> flowise_valves \<Rightarrow> emitter option \<Rightarrow> response \<Rightarrow> effect list
     \<Rightarrow> pyval \<times> effect list" where
  "flowise_streaming py v em r tr =
     (let tr1 = flowise_status v em ''info''
                  ''Processing streaming response (manual SSE parsing)...'' False tr;
          actual_content_type = (case content_type r of None \<Rightarrow> [] | Some c \<Rightarrow> c)
      in if \<not> contains actual_content_type ''text/event-stream'' then
           (case json_result r of
              Inr data \<Rightarrow>
                (case data of
                   PDict d \<Rightarrow>
                     (flowise_fallback_fields py d,
                      flowise_status v em ''info''
                        ''Received non-streaming response (fallback).'' True tr1 @ [Close])
                 | _ \<Rightarrow> (PStr (str_of py data), tr1 @ [Close]))
            | Inl e \<Rightarrow>
                if e = JSONDecodeError then (PStr (body_text r), tr1 @ [Close])
                else
                  (PStr [],
                   flowise_status v em ''error'' (''SSE streaming failed: '' @ describe py e)
                     True tr1 @ [Close]))
         else
           (case sse_loop py v em (body_lines r) ([], 0, tr1) of
              ((content, chunk_count, tr2), ex) \<Rightarrow>
                (case ex of
                   None \<Rightarrow>
                     (PStr content,
                      flowise_status v em ''info''
                        (''Streaming complete. Processed '' @ fmt py (PInt (int chunk_count))
                         @ '' data events.'') True (tr2 @ [Close]) @ [Close])
                 | Some e \<Rightarrow>
                     (PStr content,
                      flowise_status v em ''error'' (''SSE streaming failed: '' @ describe py e)
                        True (tr2 @ [Close]) @ [Close]))))"

text \<open>
  Lines 380 to 434, streaming disabled. The result is \<^verbatim>\<open>full_response_content\<close>,
  \<^verbatim>\<open>last_error_message\<close> and the effects.
\<close>

definition flowise_non_streaming ::
  "python \<Rightarrow> flowise_valves \<Rightarrow> emitter option \<Rightarrow> response \<Rightarrow> effect list
     \<Rightarrow> pyval \<times> string option \<times> effect list" where
  "flowise_non_streaming py v em r tr =
     (let tr1 = flowise_status v em ''info''
                  ''Processing as NON-STREAMING response (streaming disabled).'' False tr
      in case json_result r of
           Inr data \<Rightarrow>
             (case data of
                PDict d \<Rightarrow>
                  (flowise_fields py d, None,
                   flowise_status v em ''info''
                     ''Flowise response received (non-streaming).'' True tr1 @ [Close, Close])
              | _ \<Rightarrow> (PStr (str_of py data), None, tr1 @ [Close, Close]))
         | Inl e \<Rightarrow>
             if e = JSONDecodeError then
               (PStr (body_text r), None,
                flowise_status v em ''info''
                  ''Received raw text response (JSON decode failed).'' True (tr1 @ [Close])
                @ [Close])
             else
               (let msg = ''Error in non-streaming processing: '' @ describe py e
                in (PStr [], Some msg,
                    flowise_status v em ''error'' msg True (tr1 @ [Close]) @ [Close])))"

text \<open>
  Lines 225 to 434, from the response on. \<^verbatim>\<open>raise_for_status\<close> raises \<^verbatim>\<open>HTTPError\<close> for
  the status codes 400 to 599, and the handler of lines 237 to 248 returns.
\<close>

definition flowise_http_error_message :: "python \<Rightarrow> response \<Rightarrow> string" where
  "flowise_http_error_message py r =
     (let error_detail = ''HTTP Error '' @ fmt py (PInt (status_code r)) @ '': ''
                         @ take 200 (body_text r) @ ''...''
      in ''Flowise HTTP error: '' @ error_detail)"

definition flowise_after_post ::
  "python \<Rightarrow> flowise_valves \<Rightarrow> emitter option \<Rightarrow> response \<Rightarrow> effect list \<Rightarrow> flowise_run" where
  "flowise_after_post py v em r tr =
     (let tr1 = flowise_status v em ''info''
                  (''Request complete. HTTP Status: '' @ fmt py (PInt (status_code r)) @ ''.'')
                  False tr
      in if 400 \<le> status_code r \<and> status_code r < 600 then
           (let last_error_message = flowise_http_error_message py r
            in Returned (error_dict last_error_message)
                 (flowise_status v em ''error'' last_error_message True tr1))
         else
           (let tr2 = flowise_status v em ''info'' ''HTTP Status OK (2xx).'' False tr1
            in if enable_streaming v then
                 (case flowise_streaming py v em r tr2 of
                    (content, tr3) \<Rightarrow> Finished content None tr3)
               else
                 (case flowise_non_streaming py v em r tr2 of
                    (content, last_error, tr3) \<Rightarrow> Finished content last_error tr3)))"

text \<open>
  Lines 436 to 459, the handlers of the outer \<^verbatim>\<open>try\<close>. \<open>resp\<close> is the variable
  \<^verbatim>\<open>response\<close> (\<open>None\<close> until the POST has returned); a response is true when its status
  is below 400.
\<close>

definition flowise_handler ::
  "python \<Rightarrow> flowise_valves \<Rightarrow> emitter option \<Rightarrow> exn \<Rightarrow> response option \<Rightarrow> effect list
     \<Rightarrow> flowise_run" where
  "flowise_handler py v em e resp tr =
     (let last_error_message =
            (case e of
               RequestException n m \<Rightarrow>
                 ''Network or Request error to Flowise: '' @ describe py e
                 @ ''. Check URL/connectivity.''
             | JSONDecodeError \<Rightarrow>
                 ''JSON decoding error from Flowise: '' @ exn_str py e @ ''. Raw response: ''
                 @ take 200 (case resp of
                               None \<Rightarrow> ''N/A''
                             | Some r \<Rightarrow> if status_code r < 400 then body_text r else ''N/A'')
                 @ ''...''
             | _ \<Rightarrow>
                 ''An unexpected error occurred: '' @ describe py e
                 @ ''. Check pipe code/Flowise.'');
          tr1 = flowise_status v em ''error'' last_error_message True tr
      in Finished (PStr []) (Some last_error_message)
           (case resp of None \<Rightarrow> tr1 | Some r \<Rightarrow> tr1 @ [Close]))"

text \<open>Lines 166 to 187, the headers and the payload.\<close>

definition flowise_headers :: "flowise_valves \<Rightarrow> pydict" where
  "flowise_headers v =
     (let h0 = (case flowise_api_key v of
                  None \<Rightarrow> []
                | Some k \<Rightarrow> if k \<noteq> [] then [(''Authorization'', PStr (''Bearer '' @ k))] else [])
      in if enable_streaming v then
           dict_set ''Content-Type'' (PStr ''application/json'')
             (dict_set ''Connection'' (PStr ''keep-alive'')
                (dict_set ''Cache-Control'' (PStr ''no-cache'') h0))
         else dict_set ''Content-Type'' (PStr ''application/json'') h0)"

definition flowise_payload :: "flowise_valves \<Rightarrow> pyval \<Rightarrow> pydict" where
  "flowise_payload v user_message =
     (let p0 = [(''question'', user_message)]
      in if enable_streaming v then dict_set ''streaming'' (PBool True) p0 else p0)"

definition flowise_no_messages :: string where
  "flowise_no_messages = ''Error: No messages found in the request body to process.''"

text \<open>
  Lines 146 to 202, before the POST: they end the \<^verbatim>\<open>try\<close> statement (\<open>Inl\<close>: a
  \<^verbatim>\<open>return\<close>, or an exception that the handlers take) or give the user message and the
  effects so far (\<open>Inr\<close>).
\<close>

definition flowise_prepare ::
  "python \<Rightarrow> flowise_valves \<Rightarrow> emitter option \<Rightarrow> pyval \<Rightarrow> effect list
     \<Rightarrow> flowise_run + (pyval \<times> effect list)" where
  "flowise_prepare py v em body tr =
     (case body of
        PDict d \<Rightarrow>
          (let messages = dict_get_default d ''messages'' (PList [])
           in if \<not> truthy messages then
                Inl (Returned (error_dict flowise_no_messages)
                       (flowise_status v em ''error'' flowise_no_messages True tr))
              else
                (case (case last_message_content messages of
                         Inl e \<Rightarrow> Inl e
                       | Inr user_message \<Rightarrow>
                           (case slice_to 50 user_message of
                              Inl e \<Rightarrow> Inl e
                            | Inr shown \<Rightarrow> Inr (user_message, shown))) of
                   Inl e \<Rightarrow> Inl (flowise_handler py v em e None tr)
                 | Inr (user_message, shown) \<Rightarrow>
                     (let tr1 = flowise_status v em ''info''
                                  (''User message: '' @ quote @ fmt py shown
                                   @ ''...'' @ quote @ '' (truncated)'') False tr;
                          tr2 = flowise_status v em ''info''
                                  (case flowise_api_key v of
                                     None \<Rightarrow> ''No API Key configured for Flowise.''
                                   | Some k \<Rightarrow>
                                       if k \<noteq> [] then ''API Key configured for Flowise.''
                                       else ''No API Key configured for Flowise.'')
                                  False tr1;
                          tr3 = flowise_status v em ''info''
                                  (''Sending POST request to '' @ flowise_api_url v @ ''...'')
                                  False tr2
                      in Inr (user_message, tr3))))
      | _ \<Rightarrow>
          Inl (Returned (error_dict ''Request body is not a valid dictionary.'')
                 (flowise_status v em ''error'' ''Request body is not a valid dictionary.''
                    True tr)))"

text \<open>Lines 145 to 459, the \<^verbatim>\<open>try\<close> statement with its handlers.\<close>

definition flowise_try ::
  "python \<Rightarrow> flowise_valves \<Rightarrow> emitter option \<Rightarrow> post_result \<Rightarrow> pyval \<Rightarrow> effect list
     \<Rightarrow> flowise_run" where
  "flowise_try py v em post body tr =
     (case flowise_prepare py v em body tr of
        Inl run \<Rightarrow> run
      | Inr (user_message, tr3) \<Rightarrow>
          (let tr4 = tr3 @ [Post (flowise_api_url v) (PDict (flowise_headers v))
                              (PDict (flowise_payload v user_message))]
           in case post of
                Inl e \<Rightarrow> flowise_handler py v em e None tr4
              | Inr r \<Rightarrow> flowise_after_post py v em r tr4))"

text \<open>
  A call ends in a returned value or in an exception that leaves \<^verbatim>\<open>pipe\<close>; with it come
  the conversation body as the call leaves it and the effects of the call.
\<close>

type_synonym flowise_result = "(exn + pyval) \<times> pyval \<times> effect list"

text \<open>Lines 461 to 478.\<close>

definition flowise_unknown_error :: string where
  "flowise_unknown_error =
     ''Unknown error: No content received and no specific error reported. Check Flowise logs.''"

definition flowise_final_error :: "string option \<Rightarrow> string" where
  "flowise_final_error last_error =
     (case last_error of
        Some m \<Rightarrow> if m \<noteq> [] then m else flowise_unknown_error
      | None \<Rightarrow> flowise_unknown_error)"

definition flowise_finish ::
  "flowise_valves \<Rightarrow> emitter option \<Rightarrow> pyval \<Rightarrow> pyval \<Rightarrow> string option \<Rightarrow> effect list
     \<Rightarrow> flowise_result" where
  "flowise_finish v em body content last_error tr =
     (if truthy content then
        (case append_message body (assistant_message content) of
           Inl e \<Rightarrow> (Inl e, body, tr)
         | Inr body' \<Rightarrow> (Inr content, body', tr))
      else
        (let final_error_message = flowise_final_error last_error
         in (Inr (error_dict final_error_message), body,
             flowise_status v em ''error'' (''Flowise Pipe Failed: '' @ final_error_message)
               True tr)))"

text \<open>Lines 137 to 139, the first notification of a call.\<close>

definition flowise_start :: "flowise_valves \<Rightarrow> emitter option \<Rightarrow> effect list" where
  "flowise_start v em =
     flowise_status v em ''info'' ''Flowise Pipe: Starting execution...'' False []"

text \<open>\<^verbatim>\<open>Pipe.pipe\<close> of \<^verbatim>\<open>src/flowise.py\<close>. \<open>post\<close> is what the POST does if the call
  gets to it.\<close>

definition flowise_pipe ::
  "python \<Rightarrow> flowise_valves \<Rightarrow> emitter option \<Rightarrow> post_result \<Rightarrow> pyval \<Rightarrow> flowise_result" where
  "flowise_pipe py v em post body =
     (case flowise_try py v em post body (flowise_start v em) of
        Returned value tr \<Rightarrow> (Inr value, body, tr)
      | Finished content last_error tr \<Rightarrow> flowise_finish v em body content last_error tr)"

text \<open>The effects of a run of the \<^verbatim>\<open>try\<close> statement.\<close>

fun run_trace :: "flowise_run \<Rightarrow> effect list" where
  "run_trace (Returned value tr) = tr"
| "run_trace (Finished content last_error tr) = tr"

text \<open>\<^verbatim>\<open>full_response_content\<close> when the \<^verbatim>\<open>try\<close> statement is left at its end.\<close>

fun run_content :: "flowise_run \<Rightarrow> pyval option" where
  "run_content (Returned value tr) = None"
| "run_content (Finished content last_error tr) = Some content"

section \<open>A reference instance of the Python library\<close>

text \<open>
  For evaluating the adapters on concrete inputs. \<open>ref_str\<close> agrees with \<^verbatim>\<open>str\<close> on
  \<^verbatim>\<open>None\<close>, the booleans, the integers, strings, and on lists and dicts whose strings are
  printable ASCII without quotes and backslashes (a float is shown by a placeholder).
  \<open>ref_loads\<close> is \<^verbatim>\<open>json.loads\<close> on the documents listed in \<open>ref_documents\<close>, and
  rejects every other text. \<open>ref_interp_text\<close> gives texts CPython 3.11 uses.
\<close>

fun digits :: "nat \<Rightarrow> string" where
  "digits n =
     (if n < 10 then [char_of (48 + n)]
      else digits (n div 10) @ [char_of (48 + n mod 10)])"

definition show_int :: "int \<Rightarrow> string" where
  "show_int i = (if i < 0 then CHR ''-'' # digits (nat (- i)) else digits (nat i))"

fun join :: "string \<Rightarrow> string list \<Rightarrow> string" where
  "join sep [] = []"
| "join sep [x] = x"
| "join sep (x # y # ys) = x @ sep @ join sep (y # ys)"

fun ref_repr :: "pyval \<Rightarrow> string" where
  "ref_repr PNone = ''None''"
| "ref_repr (PBool b) = (if b then ''True'' else ''False'')"
| "ref_repr (PInt i) = show_int i"
| "ref_repr (PFloat r) = ''<float>''"
| "ref_repr (PStr s) = quote @ s @ quote"
| "ref_repr (PList xs) = ''['' @ join '', '' (map ref_repr xs) @ '']''"
| "ref_repr (PDict d) =
     ''{'' @ join '', '' (map (\<lambda>kv. quote @ fst kv @ quote @ '': '' @ ref_repr (snd kv)) d) @ ''}''"

definition ref_str :: "pyval \<Rightarrow> string" where
  "ref_str v = (case v of PStr s \<Rightarrow> s | _ \<Rightarrow> ref_repr v)"

definition ref_documents :: "(string \<times> pyval) list" where
  \<open>ref_documents =
     [(''{"event":"token","data":"A"}'', PDict [(''event'', PStr ''token''), (''data'', PStr ''A'')]),
      (''{"event":"token","data":"B"}'', PDict [(''event'', PStr ''token''), (''data'', PStr ''B'')]),
      (''{"event":"token","data":"C"}'', PDict [(''event'', PStr ''token''), (''data'', PStr ''C'')]),
      (''{"event":"end"}'', PDict [(''event'', PStr ''end'')]),
      (''{"messages": [{"role": "user", "content": "hello"}]}'',
         PDict [(''messages'',
                 PList [PDict [(''role'', PStr ''user''), (''content'', PStr ''hello'')]])]),
      (''[1, 2]'', PList [PInt 1, PInt 2])]\<close>

definition ref_loads :: "string \<Rightarrow> pyval option" where
  "ref_loads s = map_of ref_documents s"

fun ref_interp_text :: "exn \<Rightarrow> string" where
  "ref_interp_text (KeyError k) = quote @ k @ quote"
| "ref_interp_text TypeError = ''string indices must be integers, not '' @ quote @ ''str'' @ quote"
| "ref_interp_text AttributeError =
     quote @ ''str'' @ quote @ '' object has no attribute '' @ quote @ ''get'' @ quote"
| "ref_interp_text IndexError = ''list index out of range''"
| "ref_interp_text UnicodeDecodeError = ''invalid start byte''"
| "ref_interp_text JSONDecodeError = ''Expecting value: line 1 column 1 (char 0)''"
| "ref_interp_text (ValueError m) = m"
| "ref_interp_text (RequestException n m) = m"

definition py_ref :: python where
  "py_ref = \<lparr>str_of = ref_str, loads = ref_loads, interp_text = ref_interp_text\<rparr>"

section \<open>Concrete inputs\<close>

text \<open>
  The inputs at which the theorems below are evaluated: the default valves with the URLs
  filled in, a conversation of one user message, and one with a system message before it.
\<close>

definition ex_n8n_valves :: n8n_valves where
  "ex_n8n_valves =
     \<lparr>n8n_url = ''https://n8n.example/webhook/chat'', n8n_bearer_token = ''...'',
      input_field = ''chatInput'', response_field = ''output'', emit_interval = 2,
      n8n_enable_status_indicator = True\<rparr>"

definition ex_flowise_valves :: flowise_valves where
  "ex_flowise_valves =
     \<lparr>flowise_api_url = ''https://flowise.example/api/v1/prediction/bot'',
      flowise_api_key = None, flowise_enable_status_indicator = True,
      enable_streaming = True, debug_mode = True\<rparr>"

definition ex_clock :: "nat \<Rightarrow> real" where
  "ex_clock k = 100 + real k"

definition ex_body :: pyval where
  "ex_body =
     PDict [(''messages'', PList [PDict [(''role'', PStr ''user''), (''content'', PStr ''hello'')]])]"

definition ex_body_system :: pyval where
  "ex_body_system =
     PDict [(''messages'',
             PList [PDict [(''role'', PStr ''system''), (''content'', PStr ''Be brief.'')],
                    PDict [(''role'', PStr ''user''), (''content'', PStr ''hello'')]])]"

definition ex_call :: "real \<Rightarrow> bool \<Rightarrow> emit_call" where
  "ex_call t done =
     \<lparr>call_time = t, call_level = ''info'', call_message = ''working'', call_done = done\<rparr>"

text \<open>
  Responses: the event stream of the specification followed by one more token event, a
  stream that holds only the end event, and answers with a JSON body. The POST that fails
  is a connection error.
\<close>

definition ex_stream_response :: response where
  \<open>ex_stream_response =
     \<lparr>status_code = 200, content_type = Some ''text/event-stream; charset=utf-8'',
      body_text = [], json_result = Inl JSONDecodeError,
      body_lines = [Line ''data: {"event":"token","data":"A"}'',
                    Line ''data: {"event":"token","data":"B"}'',
                    Line ''data: {"event":"end"}'',
                    Line ''data: {"event":"token","data":"C"}'']\<rparr>\<close>

definition ex_end_only_response :: response where
  \<open>ex_end_only_response =
     ex_stream_response\<lparr>body_lines := [Line ''data: {"event":"end"}'']\<rparr>\<close>

definition ex_json_response :: "int \<Rightarrow> pyval \<Rightarrow> response" where
  "ex_json_response code doc =
     \<lparr>status_code = code, content_type = Some ''application/json'', body_text = ''(body)'',
      json_result = Inr doc, body_lines = []\<rparr>"

definition ex_not_found :: response where
  "ex_not_found =
     \<lparr>status_code = 404, content_type = Some ''text/plain'', body_text = ''Not Found'',
      json_result = Inl JSONDecodeError, body_lines = []\<rparr>"

definition ex_post_fails :: post_result where
  "ex_post_fails = Inl (RequestException ''ConnectionError'' ''connection refused'')"

definition ex_flowise_plain_valves :: flowise_valves where
  "ex_flowise_plain_valves = ex_flowise_valves\<lparr>enable_streaming := False\<rparr>"

definition ex_collision_valves :: n8n_valves where
  "ex_collision_valves = ex_n8n_valves\<lparr>input_field := ''systemPrompt''\<rparr>"

section \<open>The wording of the specification\<close>

text \<open>
  Two readings of "the first of the fields": the value of the first key of the list that
  the object has, and the value of the first key of the list whose value is true (an
  absent key reads as \<^verbatim>\<open>None\<close>, which is not true).
\<close>

fun first_present :: "pydict \<Rightarrow> string list \<Rightarrow> pyval option" where
  "first_present d [] = None"
| "first_present d (k # ks) =
     (case map_of d k of Some x \<Rightarrow> Some x | None \<Rightarrow> first_present d ks)"

fun first_truthy :: "pydict \<Rightarrow> string list \<Rightarrow> pyval option" where
  "first_truthy d [] = None"
| "first_truthy d (k # ks) =
     (if truthy (dict_get d k) then Some (dict_get d k) else first_truthy d ks)"

definition or_document :: "python \<Rightarrow> pydict \<Rightarrow> pyval option \<Rightarrow> pyval" where
  "or_document py d found = (case found of Some x \<Rightarrow> x | None \<Rightarrow> PStr (str_of py (PDict d)))"

section \<open>Throttling of the n8n notifications\<close>

text \<open>What a sequence of calls delivers, by prefix, and a lower bound on
  \<^verbatim>\<open>self.last_emit_time\<close> after it: the stored time never falls below a time \<open>t\<close> it has
  reached, when the interval is not negative or the clock does not run back before \<open>t\<close>.\<close>

lemma n8n_emit_run_append:
  "n8n_emit_run v em prev (cs @ ds) =
     n8n_emit_run v em prev cs @ n8n_emit_run v em (n8n_last_after v em prev cs) ds"
  by (induction cs arbitrary: prev) (auto split: prod.splits)

lemma n8n_last_after_lower:
  assumes "0 \<le> emit_interval v \<or> (\<forall>c \<in> set cs. t \<le> call_time c)" and "t \<le> prev"
  shows "t \<le> n8n_last_after v em prev cs"
  using assms
proof (induction cs arbitrary: prev)
  case Nil
  then show ?case by simp
next
  case (Cons c cs)
  have step: "t \<le> snd (n8n_emit_status v em (call_level c) (call_message c) (call_done c)
                        (call_time c) prev)"
    using Cons.prems by (auto simp: n8n_emit_status_def)
  have "0 \<le> emit_interval v \<or> (\<forall>c \<in> set cs. t \<le> call_time c)"
    using Cons.prems(1) by auto
  from Cons.IH[OF this step] show ?case by simp
qed

text \<open>
  After a delivered non-terminal call \<open>c1\<close>, a later non-terminal call \<open>c2\<close> whose
  time is less than the interval after that of \<open>c1\<close> is not delivered, whatever calls
  \<open>mid\<close> were made in between, when the interval is not negative or no call in between
  reads a time before that of \<open>c1\<close>.
\<close>

lemma n8n_emit_run_throttled:
  assumes "0 \<le> emit_interval v \<or> (\<forall>m \<in> set mid. call_time c1 \<le> call_time m)"
    and nd1: "\<not> call_done c1" and nd2: "\<not> call_done c2"
    and del: "hd (n8n_emit_run v em prev (c1 # mid @ [c2])) \<noteq> None"
    and near: "call_time c2 - call_time c1 < emit_interval v"
  shows "last (n8n_emit_run v em prev (c1 # mid @ [c2])) = None"
proof -
  define l1 where
    "l1 = snd (n8n_emit_status v em (call_level c1) (call_message c1) (call_done c1)
                 (call_time c1) prev)"
  from del nd1 have l1: "l1 = call_time c1"
    by (auto simp: l1_def n8n_emit_status_def split: prod.splits if_splits)
  define l2 where "l2 = n8n_last_after v em l1 mid"
  have low: "call_time c1 \<le> l2"
    unfolding l2_def using assms(1) l1 by (intro n8n_last_after_lower) auto
  have run: "n8n_emit_run v em prev (c1 # mid @ [c2]) =
               fst (n8n_emit_status v em (call_level c1) (call_message c1) (call_done c1)
                      (call_time c1) prev)
               # n8n_emit_run v em l1 mid
               @ [fst (n8n_emit_status v em (call_level c2) (call_message c2) (call_done c2)
                        (call_time c2) l2)]"
    by (simp add: n8n_emit_run_append l1_def l2_def split: prod.splits)
  have "fst (n8n_emit_status v em (call_level c2) (call_message c2) (call_done c2)
               (call_time c2) l2) = None"
    using nd2 near low by (simp add: n8n_emit_status_def)
  then show ?thesis
    unfolding run by simp
qed

text \<open>
  C4. With an emitter present and the status indicator enabled: of two non-terminal calls
  \<open>c1\<close> and, later, \<open>c2\<close>, whose times are less than \<open>emit_interval\<close> apart, and of
  which \<open>c1\<close> is delivered, \<open>c2\<close> is not delivered, whatever calls \<open>mid\<close> were made in
  between and whatever the state \<open>prev\<close> was before; and a terminal call is delivered in
  every state and at every time.
\<close>

theorem n8n_emit_status_throttle:
  assumes "em \<noteq> None" and "n8n_enable_status_indicator v"
  shows "(\<not> call_done c1 \<and> \<not> call_done c2
          \<and> hd (n8n_emit_run v em prev (c1 # mid @ [c2])) \<noteq> None
          \<and> \<bar>call_time c2 - call_time c1\<bar> < emit_interval v
          \<longrightarrow> last (n8n_emit_run v em prev (c1 # mid @ [c2])) = None)
         \<and> fst (n8n_emit_status v em level message True now prev') =
             Some (status_message level message True)"
proof (intro conjI impI)
  show "fst (n8n_emit_status v em level message True now prev') =
           Some (status_message level message True)"
    using assms by (simp add: n8n_emit_status_def)
next
  assume *: "\<not> call_done c1 \<and> \<not> call_done c2
          \<and> hd (n8n_emit_run v em prev (c1 # mid @ [c2])) \<noteq> None
          \<and> \<bar>call_time c2 - call_time c1\<bar> < emit_interval v"
  then have "0 \<le> emit_interval v" and "call_time c2 - call_time c1 < emit_interval v"
    by linarith+
  with * show "last (n8n_emit_run v em prev (c1 # mid @ [c2])) = None"
    by (intro n8n_emit_run_throttled) auto
qed

theorem n8n_emit_status_throttle_witness:
  "Some [] \<noteq> (None :: emitter option) \<and> n8n_enable_status_indicator ex_n8n_valves
   \<and> \<not> call_done (ex_call 10 False) \<and> \<not> call_done (ex_call 11.5 False)
   \<and> \<bar>call_time (ex_call 11.5 False) - call_time (ex_call 10 False)\<bar> < emit_interval ex_n8n_valves
   \<and> n8n_emit_run ex_n8n_valves (Some []) 0
        (ex_call 10 False # [ex_call 10.5 False, ex_call 11 True] @ [ex_call 11.5 False]) =
      [Some (status_message ''info'' ''working'' False), None,
       Some (status_message ''info'' ''working'' True), None]
   \<and> last (n8n_emit_run ex_n8n_valves (Some []) 0
        (ex_call 10 False # [ex_call 10.5 False, ex_call 11 True] @ [ex_call 11.5 False])) = None
   \<and> fst (n8n_emit_status ex_n8n_valves (Some []) ''error'' ''failed'' True 10.1 10) =
       Some (status_message ''error'' ''failed'' True)"
  using n8n_emit_status_throttle [of "Some []" ex_n8n_valves "ex_call 10 False"
      "ex_call 11.5 False" 0 "[ex_call 10.5 False, ex_call 11 True]" "''error''" "''failed''"
      "10.1" 10]
  by (simp add: ex_n8n_valves_def ex_call_def n8n_emit_status_def)

section \<open>Effects of the stages of a call\<close>

text \<open>
  No stage other than the POST itself adds a POST to the effects, and the stages before
  the POST either end the call or find the last message of the conversation.
\<close>

lemma posts_append [simp]: "posts (a @ b) = posts a @ posts b"
  by (simp add: posts_def)

lemma posts_simps [simp]:
  "posts [] = []"
  "posts (Emit m # tr) = posts tr"
  "posts (Close # tr) = posts tr"
  "posts (Post u h p # tr) = Post u h p # posts tr"
  by (simp_all add: posts_def)

lemma posts_flowise_emit_status [simp]:
  "posts (flowise_emit_status v em level message done chunk c tr) = posts tr"
  by (simp add: flowise_emit_status_def)

lemma posts_flowise_status [simp]:
  "posts (flowise_status v em level message done tr) = posts tr"
  by (simp add: flowise_status_def)

lemma posts_n8n_emit [simp]:
  "posts (n8n_trace (n8n_emit v clock em level message done w)) = posts (n8n_trace w)"
  by (simp add: n8n_emit_def n8n_emit_status_def split: prod.splits option.splits)

lemma posts_sse_loop:
  "sse_loop py v em items st = (st', ex) \<Longrightarrow> posts (snd (snd st')) = posts (snd (snd st))"
  by (induction py v em items st arbitrary: st' ex rule: sse_loop.induct)
     (auto split: if_splits option.splits pyval.splits simp: Let_def)

lemma posts_flowise_streaming:
  "flowise_streaming py v em r tr = (c, tr') \<Longrightarrow> posts tr' = posts tr"
  by (auto simp: flowise_streaming_def Let_def dest!: posts_sse_loop
      split: sum.splits pyval.splits prod.splits option.splits if_splits)

lemma posts_flowise_non_streaming:
  "flowise_non_streaming py v em r tr = (c, e, tr') \<Longrightarrow> posts tr' = posts tr"
  by (auto simp: flowise_non_streaming_def Let_def split: sum.splits pyval.splits if_splits)

lemma posts_flowise_after_post [simp]:
  "posts (run_trace (flowise_after_post py v em r tr)) = posts tr"
  by (auto simp: flowise_after_post_def Let_def split: prod.splits
      dest!: posts_flowise_streaming posts_flowise_non_streaming)

lemma posts_flowise_handler [simp]:
  "posts (run_trace (flowise_handler py v em e resp tr)) = posts tr"
  by (auto simp: flowise_handler_def Let_def split: option.splits)

lemma last_message_content_Inr:
  "last_message_content messages = Inr c \<Longrightarrow>
     \<exists>ms m. messages = PList ms \<and> ms \<noteq> [] \<and> last ms = PDict m \<and> map_of m ''content'' = Some c"
  unfolding last_message_content_def
  by (cases messages; cases "subscript_last messages")
     (auto split: if_splits option.splits elim!: subscript_key.elims)

lemma flowise_prepare_Inl:
  "flowise_prepare py v em body tr = Inl run \<Longrightarrow> posts (run_trace run) = posts tr"
  by (auto simp: flowise_prepare_def Let_def split: pyval.splits if_splits sum.splits prod.splits)

lemma flowise_prepare_Inl_content:
  "flowise_prepare py v em body tr = Inl (Finished c e t) \<Longrightarrow> c = PStr []"
  by (auto simp: flowise_prepare_def flowise_handler_def Let_def
      split: pyval.splits if_splits sum.splits prod.splits)

lemma flowise_prepare_Inr:
  assumes "flowise_prepare py v em body tr = Inr (um, tr3)"
  shows "posts tr3 = posts tr"
    and "\<exists>d ms m. body = PDict d \<and> map_of d ''messages'' = Some (PList ms) \<and> ms \<noteq> []
           \<and> last ms = PDict m \<and> map_of m ''content'' = Some um"
proof -
  show "posts tr3 = posts tr"
    using assms
    by (auto simp: flowise_prepare_def Let_def split: pyval.splits if_splits sum.splits prod.splits)
  from assms obtain d where d: "body = PDict d"
    by (auto simp: flowise_prepare_def split: pyval.splits)
  from assms d have "last_message_content (dict_get_default d ''messages'' (PList [])) = Inr um"
    by (auto simp: flowise_prepare_def Let_def split: if_splits sum.splits prod.splits)
  from last_message_content_Inr[OF this] obtain ms m where
    "dict_get_default d ''messages'' (PList []) = PList ms" "ms \<noteq> []" "last ms = PDict m"
    "map_of m ''content'' = Some um" by blast
  then show "\<exists>d ms m. body = PDict d \<and> map_of d ''messages'' = Some (PList ms) \<and> ms \<noteq> []
           \<and> last ms = PDict m \<and> map_of m ''content'' = Some um"
    using d by (auto simp: dict_get_default_def split: option.splits)
qed

lemma posts_flowise_finish:
  "posts (snd (snd (flowise_finish v em body content last_error tr))) = posts tr"
  by (auto simp: flowise_finish_def Let_def split: sum.splits)

lemma posts_flowise_start [simp]: "posts (flowise_start v em) = []"
  by (simp add: flowise_start_def)

lemma flowise_try_posts:
  "posts (run_trace (flowise_try py v em post body tr)) =
     (case flowise_prepare py v em body tr of
        Inl run \<Rightarrow> posts tr
      | Inr (um, tr3) \<Rightarrow>
          posts tr @ [Post (flowise_api_url v) (PDict (flowise_headers v))
                        (PDict (flowise_payload v um))])"
  by (auto simp: flowise_try_def Let_def flowise_prepare_Inl flowise_prepare_Inr(1)
      split: sum.splits prod.splits)

lemma flowise_pipe_trace:
  "posts (snd (snd (flowise_pipe py v em post body))) =
     posts (run_trace (flowise_try py v em post body (flowise_start v em)))"
  by (auto simp: flowise_pipe_def posts_flowise_finish split: flowise_run.splits)

lemma flowise_pipe_posts:
  "posts (snd (snd (flowise_pipe py v em post body))) =
     (case flowise_prepare py v em body (flowise_start v em) of
        Inl run \<Rightarrow> []
      | Inr (um, tr3) \<Rightarrow>
          [Post (flowise_api_url v) (PDict (flowise_headers v)) (PDict (flowise_payload v um))])"
  by (simp add: flowise_pipe_trace flowise_try_posts split: sum.splits)

lemma posts_n8n_success_body:
  "n8n_success_body py v clock em r w = Inr (c, e, w') \<Longrightarrow>
     posts (n8n_trace w') = posts (n8n_trace w)"
  by (auto simp: n8n_success_body_def Let_def
      split: sum.splits pyval.splits list.splits option.splits if_splits)

lemma posts_n8n_classify:
  "n8n_classify py v clock em r w = Inr (c, e, w') \<Longrightarrow>
     posts (n8n_trace w') = posts (n8n_trace w)"
  by (auto simp: n8n_classify_def Let_def dest: posts_n8n_success_body split: if_splits)

lemma posts_n8n_request_failed:
  "n8n_request_failed py v clock em e w = (c, err, w') \<Longrightarrow>
     posts (n8n_trace w') = posts (n8n_trace w)"
  by (auto simp: n8n_request_failed_def Let_def)

lemma n8n_exchange_posts:
  "n8n_exchange py v clock em post payload w = (c, e, w') \<Longrightarrow>
     posts (n8n_trace w') =
       posts (n8n_trace w) @ [Post (n8n_url v) (PDict (n8n_headers v)) (PDict payload)]"
  by (auto simp: n8n_exchange_def Let_def split: sum.splits
      dest!: posts_n8n_request_failed posts_n8n_classify)

lemma posts_n8n_finish [simp]:
  "posts (n8n_trace (snd (snd (n8n_finish v clock em body c e w)))) = posts (n8n_trace w)"
  by (auto simp: n8n_finish_def Let_def split: sum.splits if_splits)

lemma n8n_prepare_Inl:
  "n8n_prepare v clock em d w = Inl (out, body', w') \<Longrightarrow>
     posts (n8n_trace w') = posts (n8n_trace w)"
  by (auto simp: n8n_prepare_def Let_def split: sum.splits if_splits)

lemma n8n_prepare_Inr:
  assumes "n8n_prepare v clock em d w = Inr (payload, w1)"
  shows "posts (n8n_trace w1) = posts (n8n_trace w)"
    and "\<exists>ms m q sp. map_of d ''messages'' = Some (PList ms) \<and> ms \<noteq> [] \<and> last ms = PDict m
           \<and> map_of m ''content'' = Some q \<and> find_system_prompt ms = Inr sp
           \<and> payload = n8n_payload v (fst (extract_event_info em)) q sp"
proof -
  show "posts (n8n_trace w1) = posts (n8n_trace w)"
    using assms by (auto simp: n8n_prepare_def Let_def split: sum.splits if_splits)
  from assms obtain q where q: "last_message_content (dict_get_default d ''messages'' (PList [])) = Inr q"
    by (auto simp: n8n_prepare_def Let_def split: sum.splits if_splits)
  from last_message_content_Inr[OF q] obtain ms m where
    ms: "dict_get_default d ''messages'' (PList []) = PList ms" "ms \<noteq> []" "last ms = PDict m"
    "map_of m ''content'' = Some q" by blast
  from assms q ms obtain sp where "find_system_prompt ms = Inr sp"
    "payload = n8n_payload v (fst (extract_event_info em)) q sp"
    by (auto simp: n8n_prepare_def Let_def split: sum.splits if_splits)
  with ms show "\<exists>ms m q sp. map_of d ''messages'' = Some (PList ms) \<and> ms \<noteq> [] \<and> last ms = PDict m
           \<and> map_of m ''content'' = Some q \<and> find_system_prompt ms = Inr sp
           \<and> payload = n8n_payload v (fst (extract_event_info em)) q sp"
    by (auto simp: dict_get_default_def split: option.splits)
qed

lemma n8n_pipe_dict_posts:
  "posts (n8n_trace (snd (snd (n8n_pipe_dict py v clock em post d w)))) =
     (case n8n_prepare v clock em d w of
        Inl res \<Rightarrow> posts (n8n_trace w)
      | Inr (payload, w1) \<Rightarrow>
          posts (n8n_trace w) @ [Post (n8n_url v) (PDict (n8n_headers v)) (PDict payload)])"
  by (auto simp: n8n_pipe_dict_def n8n_prepare_Inr(1) split: sum.splits prod.splits
      dest!: n8n_prepare_Inl n8n_exchange_posts)

lemma map_of_dict_set: "map_of (dict_set k v d) = (map_of d)(k \<mapsto> v)"
  by (induction d) auto

lemma messages_of_append_message:
  "append_message body m = Inr body' \<Longrightarrow> messages_of body' = messages_of body @ [m]"
  by (auto simp: append_message_def messages_of_def map_of_dict_set
      split: pyval.splits option.splits)

lemma append_message_list:
  "map_of d ''messages'' = Some (PList ms) \<Longrightarrow>
     append_message (PDict d) m = Inr (PDict (dict_set ''messages'' (PList (ms @ [m])) d))"
  by (simp add: append_message_def)

lemma flowise_pipe_reached:
  assumes "posts (snd (snd (flowise_pipe py v em post body))) \<noteq> []"
  obtains um tr3 where "flowise_prepare py v em body (flowise_start v em) = Inr (um, tr3)"
  using assms by (auto simp: flowise_pipe_posts split: sum.splits)

lemma flowise_try_reached:
  assumes "flowise_prepare py v em body tr = Inr (um, tr3)"
  shows "flowise_try py v em (Inr r) body tr =
           flowise_after_post py v em r
             (tr3 @ [Post (flowise_api_url v) (PDict (flowise_headers v))
                       (PDict (flowise_payload v um))])"
  using assms by (simp add: flowise_try_def)

lemma n8n_pipe_dict_reached:
  assumes "posts (n8n_trace (snd (snd (n8n_pipe_dict py v clock em post d w)))) \<noteq> posts (n8n_trace w)"
  obtains payload w1 where "n8n_prepare v clock em d w = Inr (payload, w1)"
  using assms by (auto simp: n8n_pipe_dict_posts split: sum.splits)

section \<open>When a call makes the POST\<close>

lemma last_message_content_iff:
  "last_message_content messages = Inr c \<longleftrightarrow>
     (\<exists>ms m. messages = PList ms \<and> ms \<noteq> [] \<and> last ms = PDict m \<and> map_of m ''content'' = Some c)"
proof
  assume "last_message_content messages = Inr c"
  then show "\<exists>ms m. messages = PList ms \<and> ms \<noteq> [] \<and> last ms = PDict m
               \<and> map_of m ''content'' = Some c"
    by (rule last_message_content_Inr)
next
  assume "\<exists>ms m. messages = PList ms \<and> ms \<noteq> [] \<and> last ms = PDict m
            \<and> map_of m ''content'' = Some c"
  then show "last_message_content messages = Inr c"
    by (auto simp: last_message_content_def)
qed

text \<open>
  When the Flowise adapter makes the POST: the body is a dict, its messages are a non-empty
  list, the last of them is a dict with a content, and the content can be sliced (it is a
  string or a list).
\<close>

lemma flowise_post_iff:
  "posts (snd (snd (flowise_pipe py v em post body))) \<noteq> [] \<longleftrightarrow>
     (\<exists>d ms m c. body = PDict d \<and> map_of d ''messages'' = Some (PList ms) \<and> ms \<noteq> []
        \<and> last ms = PDict m \<and> map_of m ''content'' = Some c
        \<and> slice_to 50 c \<noteq> Inl TypeError)"
proof
  assume "posts (snd (snd (flowise_pipe py v em post body))) \<noteq> []"
  then obtain um tr3 where
    prep: "flowise_prepare py v em body (flowise_start v em) = Inr (um, tr3)"
    by (rule flowise_pipe_reached)
  from flowise_prepare_Inr(2)[OF prep] obtain d ms m where
    *: "body = PDict d" "map_of d ''messages'' = Some (PList ms)" "ms \<noteq> []" "last ms = PDict m"
       "map_of m ''content'' = Some um" by blast
  then have "last_message_content (dict_get_default d ''messages'' (PList [])) = Inr um"
    by (simp add: dict_get_default_def last_message_content_def)
  with prep * have "slice_to 50 um \<noteq> Inl TypeError"
    by (cases um) (auto simp: flowise_prepare_def dict_get_default_def Let_def)
  with * show "\<exists>d ms m c. body = PDict d \<and> map_of d ''messages'' = Some (PList ms) \<and> ms \<noteq> []
        \<and> last ms = PDict m \<and> map_of m ''content'' = Some c \<and> slice_to 50 c \<noteq> Inl TypeError"
    by blast
next
  assume "\<exists>d ms m c. body = PDict d \<and> map_of d ''messages'' = Some (PList ms) \<and> ms \<noteq> []
        \<and> last ms = PDict m \<and> map_of m ''content'' = Some c \<and> slice_to 50 c \<noteq> Inl TypeError"
  then obtain d ms m c where
    *: "body = PDict d" "map_of d ''messages'' = Some (PList ms)" "ms \<noteq> []" "last ms = PDict m"
       "map_of m ''content'' = Some c" "slice_to 50 c \<noteq> Inl TypeError" by blast
  then have lc: "last_message_content (dict_get_default d ''messages'' (PList [])) = Inr c"
    by (simp add: dict_get_default_def last_message_content_def)
  from *(6) obtain shown where "slice_to 50 c = Inr shown"
    by (cases c) auto
  with * lc have "\<exists>tr3. flowise_prepare py v em body (flowise_start v em) = Inr (c, tr3)"
    by (simp add: flowise_prepare_def dict_get_default_def Let_def)
  then show "posts (snd (snd (flowise_pipe py v em post body))) \<noteq> []"
    by (auto simp: flowise_pipe_posts)
qed

text \<open>
  When the n8n adapter makes the POST, for a body that is a dict: its messages are a
  non-empty list, the last of them is a dict with a content, and the search for the system
  prompt does not raise (every message up to the first system message is a dict, and that
  one has a content).
\<close>

lemma n8n_post_iff:
  "posts (n8n_trace (snd (snd (n8n_pipe py v clock em post (PDict d) prev)))) \<noteq> [] \<longleftrightarrow>
     (\<exists>ms m c sp. map_of d ''messages'' = Some (PList ms) \<and> ms \<noteq> []
        \<and> last ms = PDict m \<and> map_of m ''content'' = Some c
        \<and> find_system_prompt ms = Inr sp)"
proof
  define w0 where "w0 = \<lparr>last_emit_time = prev, clock_reads = 0, n8n_trace = []\<rparr>"
  have empty: "posts (n8n_trace w0) = []" by (simp add: w0_def)
  have pipe: "n8n_pipe py v clock em post (PDict d) prev = n8n_pipe_dict py v clock em post d w0"
    by (simp add: n8n_pipe_def w0_def)
  {
    assume "posts (n8n_trace (snd (snd (n8n_pipe py v clock em post (PDict d) prev)))) \<noteq> []"
    then have "posts (n8n_trace (snd (snd (n8n_pipe_dict py v clock em post d w0))))
                 \<noteq> posts (n8n_trace w0)"
      by (simp add: pipe empty)
    then obtain payload w1 where prep: "n8n_prepare v clock em d w0 = Inr (payload, w1)"
      by (rule n8n_pipe_dict_reached)
    from n8n_prepare_Inr(2)[OF prep]
    show "\<exists>ms m c sp. map_of d ''messages'' = Some (PList ms) \<and> ms \<noteq> []
        \<and> last ms = PDict m \<and> map_of m ''content'' = Some c \<and> find_system_prompt ms = Inr sp"
      by blast
  }
  {
    assume "\<exists>ms m c sp. map_of d ''messages'' = Some (PList ms) \<and> ms \<noteq> []
        \<and> last ms = PDict m \<and> map_of m ''content'' = Some c \<and> find_system_prompt ms = Inr sp"
    then obtain ms m c sp where
      *: "map_of d ''messages'' = Some (PList ms)" "ms \<noteq> []" "last ms = PDict m"
         "map_of m ''content'' = Some c" "find_system_prompt ms = Inr sp" by blast
    then have "last_message_content (dict_get_default d ''messages'' (PList [])) = Inr c"
      by (simp add: dict_get_default_def last_message_content_def)
    with * have "\<exists>payload w1. n8n_prepare v clock em d w0 = Inr (payload, w1)"
      by (simp add: n8n_prepare_def dict_get_default_def Let_def)
    then show "posts (n8n_trace (snd (snd (n8n_pipe py v clock em post (PDict d) prev)))) \<noteq> []"
      by (auto simp: pipe n8n_pipe_dict_posts)
  }
qed

section \<open>Input validation\<close>

text \<open>
  C6. When the body is a dict whose \<^verbatim>\<open>messages\<close> entry is absent or is the empty list, both
  adapters return \<^verbatim>\<open>{"error": ...}\<close> and the effects of the call hold no POST, whatever the
  valves, the emitter and the endpoint are.
\<close>

theorem no_messages_is_error:
  assumes "map_of d ''messages'' = None \<or> map_of d ''messages'' = Some (PList [])"
  shows "fst (flowise_pipe py fv em post (PDict d)) = Inr (error_dict flowise_no_messages)
       \<and> posts (snd (snd (flowise_pipe py fv em post (PDict d)))) = []
       \<and> fst (n8n_pipe py nv clock em' post' (PDict d) prev) = Inr (error_dict n8n_no_messages)
       \<and> posts (n8n_trace (snd (snd (n8n_pipe py nv clock em' post' (PDict d) prev)))) = []"
proof -
  have falsy: "\<not> truthy (dict_get_default d ''messages'' (PList []))"
    using assms by (auto simp: dict_get_default_def)
  have f: "flowise_prepare py fv em (PDict d) (flowise_start fv em) =
             Inl (Returned (error_dict flowise_no_messages)
                    (flowise_status fv em ''error'' flowise_no_messages True (flowise_start fv em)))"
    using falsy by (simp add: flowise_prepare_def)
  have app: "\<exists>body'. append_message (PDict d) (assistant_message (PStr n8n_no_messages)) = Inr body'"
    using assms by (auto simp: append_message_def)
  then obtain body' where
    body': "append_message (PDict d) (assistant_message (PStr n8n_no_messages)) = Inr body'" ..
  define w0 where "w0 = \<lparr>last_emit_time = prev, clock_reads = 0, n8n_trace = []\<rparr>"
  have n: "n8n_prepare nv clock em' d w0 =
             Inl (Inr (error_dict n8n_no_messages), body',
                  n8n_emit nv clock em' ''error'' n8n_no_messages True w0)"
    using falsy body' by (simp add: n8n_prepare_def)
  have "flowise_pipe py fv em post (PDict d) =
          (Inr (error_dict flowise_no_messages), PDict d,
           flowise_status fv em ''error'' flowise_no_messages True (flowise_start fv em))"
    by (simp add: flowise_pipe_def flowise_try_def f)
  moreover have "n8n_pipe py nv clock em' post' (PDict d) prev =
          (Inr (error_dict n8n_no_messages), body',
           n8n_emit nv clock em' ''error'' n8n_no_messages True w0)"
    by (simp add: n8n_pipe_def n8n_pipe_dict_def n w0_def[symmetric])
  ultimately show ?thesis by (simp add: w0_def)
qed

theorem no_messages_is_error_witness:
  "map_of [(''messages'', PList [])] ''messages'' = Some (PList [])
   \<and> fst (flowise_pipe py_ref ex_flowise_valves (Some []) ex_post_fails
            (PDict [(''messages'', PList [])])) = Inr (error_dict flowise_no_messages)
   \<and> posts (snd (snd (flowise_pipe py_ref ex_flowise_valves (Some []) ex_post_fails
            (PDict [(''messages'', PList [])])))) = []
   \<and> fst (n8n_pipe py_ref ex_n8n_valves ex_clock (Some []) ex_post_fails
            (PDict [(''messages'', PList [])]) 0) = Inr (error_dict n8n_no_messages)
   \<and> posts (n8n_trace (snd (snd (n8n_pipe py_ref ex_n8n_valves ex_clock (Some []) ex_post_fails
            (PDict [(''messages'', PList [])]) 0)))) = []
   \<and> map_of [(''model'', PStr ''flowise'')] ''messages'' = None
   \<and> fst (n8n_pipe py_ref ex_n8n_valves ex_clock (Some []) ex_post_fails
            (PDict [(''model'', PStr ''flowise'')]) 0) = Inr (error_dict n8n_no_messages)"
proof -
  have h1: "map_of [(''messages'', PList [])] ''messages'' = Some (PList [])" by simp
  have h2: "map_of [(''model'', PStr ''flowise'')] ''messages'' = None" by simp
  show ?thesis
    using h1 h2
      no_messages_is_error [of "[(''messages'', PList [])]" py_ref ex_flowise_valves "Some []"
        ex_post_fails ex_n8n_valves ex_clock "Some []" ex_post_fails 0]
      no_messages_is_error [of "[(''model'', PStr ''flowise'')]" py_ref ex_flowise_valves "Some []"
        ex_post_fails ex_n8n_valves ex_clock "Some []" ex_post_fails 0]
    by simp
qed

section \<open>A 4xx status\<close>

text \<open>
  C1, as amended. When the POST of a call returns a response with a status from 400 to 499:
  the n8n adapter returns \<^verbatim>\<open>{"error": ...}\<close> with the client-error text, the call made
  exactly one POST, and the messages of the body gain exactly one message, of role
  \<^verbatim>\<open>assistant\<close>, that carries the error text; the Flowise adapter returns
  \<^verbatim>\<open>{"error": ...}\<close> with the HTTP-error text, the call made exactly one POST, and the
  body is left as it was.
\<close>

theorem client_error_status_result:
  assumes "400 \<le> status_code r" and "status_code r < 500"
  shows "(posts (snd (snd (flowise_pipe py fv em (Inr r) body))) \<noteq> [] \<longrightarrow>
            fst (flowise_pipe py fv em (Inr r) body) =
              Inr (error_dict (flowise_http_error_message py r))
          \<and> length (posts (snd (snd (flowise_pipe py fv em (Inr r) body)))) = 1
          \<and> fst (snd (flowise_pipe py fv em (Inr r) body)) = body)
       \<and> (posts (n8n_trace (snd (snd (n8n_pipe py nv clock em' (Inr r) (PDict d) prev)))) \<noteq> [] \<longrightarrow>
            fst (n8n_pipe py nv clock em' (Inr r) (PDict d) prev) =
              Inr (error_dict (n8n_client_error_message py r))
          \<and> length (posts (n8n_trace (snd (snd (n8n_pipe py nv clock em' (Inr r) (PDict d) prev))))) = 1
          \<and> messages_of (fst (snd (n8n_pipe py nv clock em' (Inr r) (PDict d) prev))) =
              messages_of (PDict d)
              @ [assistant_message
                   (PStr (''Error calling N8N workflow: '' @ n8n_client_error_message py r))])"
proof (intro conjI impI)
  assume reached: "posts (snd (snd (flowise_pipe py fv em (Inr r) body))) \<noteq> []"
  then obtain um tr3 where prep: "flowise_prepare py fv em body (flowise_start fv em) = Inr (um, tr3)"
    by (rule flowise_pipe_reached)
  have run: "flowise_try py fv em (Inr r) body (flowise_start fv em) =
               Returned (error_dict (flowise_http_error_message py r))
                 (flowise_status fv em ''error'' (flowise_http_error_message py r) True
                    (flowise_status fv em ''info''
                       (''Request complete. HTTP Status: '' @ fmt py (PInt (status_code r)) @ ''.'')
                       False
                       (tr3 @ [Post (flowise_api_url fv) (PDict (flowise_headers fv))
                                 (PDict (flowise_payload fv um))])))"
    using assms by (simp add: flowise_try_reached[OF prep] flowise_after_post_def Let_def)
  show "fst (flowise_pipe py fv em (Inr r) body) =
              Inr (error_dict (flowise_http_error_message py r))"
    by (simp add: flowise_pipe_def run)
  show "length (posts (snd (snd (flowise_pipe py fv em (Inr r) body)))) = 1"
    by (simp add: flowise_pipe_posts prep)
  show "fst (snd (flowise_pipe py fv em (Inr r) body)) = body"
    by (simp add: flowise_pipe_def run)
next
  define w0 where "w0 = \<lparr>last_emit_time = prev, clock_reads = 0, n8n_trace = []\<rparr>"
  let ?res = "n8n_pipe py nv clock em' (Inr r) (PDict d) prev"
  let ?msg = "n8n_client_error_message py r"
  assume reached: "posts (n8n_trace (snd (snd ?res))) \<noteq> []"
  have pipe: "?res = n8n_pipe_dict py nv clock em' (Inr r) d w0"
    by (simp add: n8n_pipe_def w0_def)
  from reached have "posts (n8n_trace (snd (snd (n8n_pipe_dict py nv clock em' (Inr r) d w0))))
                       \<noteq> posts (n8n_trace w0)"
    unfolding pipe by (simp add: w0_def)
  then obtain payload w1 where prep: "n8n_prepare nv clock em' d w0 = Inr (payload, w1)"
    by (rule n8n_pipe_dict_reached)
  from n8n_prepare_Inr(2)[OF prep] obtain ms where ms: "map_of d ''messages'' = Some (PList ms)"
    by blast
  obtain w2 where ex: "n8n_exchange py nv clock em' (Inr r) payload w1 = (PNone, Some ?msg, w2)"
    using assms by (simp add: n8n_exchange_def n8n_classify_def Let_def)
  have nonempty: "?msg \<noteq> []"
    by (simp add: n8n_client_error_message_def)
  have res: "?res = (Inr (error_dict ?msg),
                     PDict (dict_set ''messages''
                       (PList (ms @ [assistant_message (PStr (''Error calling N8N workflow: '' @ ?msg))])) d),
                     n8n_emit nv clock em' ''error'' (''Final Error calling N8N: '' @ ?msg) True w2)"
    using nonempty
    by (simp add: pipe n8n_pipe_dict_def prep ex n8n_finish_def n8n_final_error_def
        append_message_list[OF ms] Let_def)
  show "fst ?res = Inr (error_dict ?msg)" by (simp add: res)
  have empty: "posts (n8n_trace w0) = []"
    by (simp add: w0_def)
  show "length (posts (n8n_trace (snd (snd ?res)))) = 1"
    unfolding pipe by (simp add: n8n_pipe_dict_posts prep empty)
  show "messages_of (fst (snd ?res)) = messages_of (PDict d)
          @ [assistant_message (PStr (''Error calling N8N workflow: '' @ ?msg))]"
    using ms by (simp add: res messages_of_def map_of_dict_set)
qed

theorem client_error_status_result_witness:
  "400 \<le> status_code ex_not_found \<and> status_code ex_not_found < 500
   \<and> posts (snd (snd (flowise_pipe py_ref ex_flowise_valves (Some []) (Inr ex_not_found) ex_body))) \<noteq> []
   \<and> fst (flowise_pipe py_ref ex_flowise_valves (Some []) (Inr ex_not_found) ex_body) =
        Inr (error_dict ''Flowise HTTP error: HTTP Error 404: Not Found...'')
   \<and> length (posts (snd (snd (flowise_pipe py_ref ex_flowise_valves (Some []) (Inr ex_not_found)
        ex_body)))) = 1
   \<and> fst (snd (flowise_pipe py_ref ex_flowise_valves (Some []) (Inr ex_not_found) ex_body)) = ex_body
   \<and> posts (n8n_trace (snd (snd (n8n_pipe py_ref ex_n8n_valves ex_clock (Some []) (Inr ex_not_found)
        ex_body 0)))) \<noteq> []
   \<and> fst (n8n_pipe py_ref ex_n8n_valves ex_clock (Some []) (Inr ex_not_found) ex_body 0) =
        Inr (error_dict (n8n_client_error_message py_ref ex_not_found))
   \<and> length (posts (n8n_trace (snd (snd (n8n_pipe py_ref ex_n8n_valves ex_clock (Some [])
        (Inr ex_not_found) ex_body 0))))) = 1
   \<and> messages_of (fst (snd (n8n_pipe py_ref ex_n8n_valves ex_clock (Some []) (Inr ex_not_found)
        ex_body 0))) =
        [PDict [(''role'', PStr ''user''), (''content'', PStr ''hello'')],
         PDict [(''role'', PStr ''assistant''),
                (''content'', PStr (''Error calling N8N workflow: ''
                    @ n8n_client_error_message py_ref ex_not_found))]]"
proof -
  have h1: "400 \<le> status_code ex_not_found" and h2: "status_code ex_not_found < 500"
    by (simp_all add: ex_not_found_def)
  have f: "posts (snd (snd (flowise_pipe py_ref ex_flowise_valves (Some []) (Inr ex_not_found)
             ex_body))) \<noteq> []"
    by code_simp
  have n: "posts (n8n_trace (snd (snd (n8n_pipe py_ref ex_n8n_valves ex_clock (Some [])
             (Inr ex_not_found) ex_body 0)))) \<noteq> []"
    by code_simp
  have m: "flowise_http_error_message py_ref ex_not_found =
             ''Flowise HTTP error: HTTP Error 404: Not Found...''"
    by code_simp
  have b: "messages_of ex_body = [PDict [(''role'', PStr ''user''), (''content'', PStr ''hello'')]]"
    by code_simp
  have body: "ex_body = PDict [(''messages'',
                PList [PDict [(''role'', PStr ''user''), (''content'', PStr ''hello'')]])]"
    by (simp add: ex_body_def)
  show ?thesis
    using h1 h2 f n m b
      client_error_status_result [OF h1 h2, of py_ref ex_flowise_valves "Some []" ex_body
        ex_n8n_valves ex_clock "Some []"
        "[(''messages'', PList [PDict [(''role'', PStr ''user''), (''content'', PStr ''hello'')]])]" 0]
    by (simp add: body [symmetric] assistant_message_def)
qed

text \<open>
  The claim as first stated asks the same of the Flowise adapter as of the n8n adapter. On a
  404 the Flowise adapter returns the error and the conversation still has its one message.
\<close>

theorem flowise_client_error_counterexample:
  "status_code ex_not_found = 404
   \<and> length (posts (snd (snd (flowise_pipe py_ref ex_flowise_valves (Some []) (Inr ex_not_found)
        ex_body)))) = 1
   \<and> fst (flowise_pipe py_ref ex_flowise_valves (Some []) (Inr ex_not_found) ex_body) =
        Inr (error_dict ''Flowise HTTP error: HTTP Error 404: Not Found...'')
   \<and> length (messages_of ex_body) = 1
   \<and> length (messages_of (fst (snd (flowise_pipe py_ref ex_flowise_valves (Some [])
        (Inr ex_not_found) ex_body)))) = 1"
  by code_simp

section \<open>Closing the HTTP response\<close>

text \<open>Which effects of a call are closings of the response.\<close>

lemma closes_append [simp]: "closes (a @ b) = closes a @ closes b"
  by (simp add: closes_def)

lemma closes_simps [simp]:
  "closes [] = []"
  "closes (Emit m # tr) = closes tr"
  "closes (Post u h p # tr) = closes tr"
  "closes (Close # tr) = Close # closes tr"
  by (simp_all add: closes_def)

lemma closes_flowise_status [simp]:
  "closes (flowise_status v em level message done tr) = closes tr"
  by (simp add: flowise_status_def flowise_emit_status_def)

lemma closes_flowise_start [simp]: "closes (flowise_start v em) = []"
  by (simp add: flowise_start_def)

lemma closes_flowise_prepare:
  "flowise_prepare py v em body tr = Inr (um, tr3) \<Longrightarrow> closes tr3 = closes tr"
  by (auto simp: flowise_prepare_def Let_def split: pyval.splits if_splits sum.splits prod.splits)

lemma closes_flowise_finish [simp]:
  "closes (snd (snd (flowise_finish v em body content last_error tr))) = closes tr"
  by (auto simp: flowise_finish_def Let_def split: sum.splits)

lemma closes_flowise_streaming:
  "flowise_streaming py v em r tr = (c, tr') \<Longrightarrow> closes tr' \<noteq> []"
  by (auto simp: flowise_streaming_def Let_def
      split: sum.splits pyval.splits prod.splits option.splits if_splits)

lemma closes_flowise_non_streaming:
  "flowise_non_streaming py v em r tr = (c, e, tr') \<Longrightarrow> closes tr' \<noteq> []"
  by (auto simp: flowise_non_streaming_def Let_def split: sum.splits pyval.splits if_splits)

text \<open>On every path but the one of an HTTP error status the response is closed.\<close>

lemma flowise_closes_response:
  assumes "posts (snd (snd (flowise_pipe py v em (Inr r) body))) \<noteq> []"
    and "\<not> (400 \<le> status_code r \<and> status_code r < 600)"
  shows "closes (snd (snd (flowise_pipe py v em (Inr r) body))) \<noteq> []"
proof -
  from assms(1) obtain um tr3 where
    prep: "flowise_prepare py v em body (flowise_start v em) = Inr (um, tr3)"
    by (rule flowise_pipe_reached)
  have "closes (run_trace (flowise_try py v em (Inr r) body (flowise_start v em))) \<noteq> []"
    using assms(2)
    by (auto simp: flowise_try_reached[OF prep] flowise_after_post_def Let_def
        split: prod.splits dest: closes_flowise_streaming closes_flowise_non_streaming)
  then show ?thesis
    by (auto simp: flowise_pipe_def split: flowise_run.splits)
qed

text \<open>On an HTTP error status it is not.\<close>

lemma flowise_http_error_leaves_open:
  assumes "posts (snd (snd (flowise_pipe py v em (Inr r) body))) \<noteq> []"
    and "400 \<le> status_code r" and "status_code r < 600"
  shows "closes (snd (snd (flowise_pipe py v em (Inr r) body))) = []"
proof -
  from assms(1) obtain um tr3 where
    prep: "flowise_prepare py v em body (flowise_start v em) = Inr (um, tr3)"
    by (rule flowise_pipe_reached)
  show ?thesis
    using assms(2,3) closes_flowise_prepare[OF prep]
    by (simp add: flowise_pipe_def flowise_try_reached[OF prep] flowise_after_post_def Let_def)
qed


section \<open>The end of a Flowise call\<close>

text \<open>
  A run that ends with a true \<^verbatim>\<open>full_response_content\<close> went through the POST, so the
  body is a dict whose messages are a list and the append of lines 462 to 464 succeeds.
\<close>

lemma flowise_try_truthy_reached:
  assumes "flowise_try py v em post body tr0 = Finished c e t" and "truthy c"
  obtains um tr3 where "flowise_prepare py v em body tr0 = Inr (um, tr3)"
proof (cases "flowise_prepare py v em body tr0")
  case (Inl run)
  with assms(1) have "flowise_prepare py v em body tr0 = Inl (Finished c e t)"
    by (simp add: flowise_try_def)
  from flowise_prepare_Inl_content[OF this] assms(2) show ?thesis by simp
next
  case (Inr p)
  then show ?thesis using that by (cases p) simp
qed

lemma flowise_finish_truthy:
  assumes "flowise_try py v em post body tr0 = Finished c e t" and "truthy c"
  shows "\<exists>body'. flowise_finish v em body c e t = (Inr c, body', t)
           \<and> messages_of body' = messages_of body @ [assistant_message c]"
proof -
  from assms obtain um tr3 where "flowise_prepare py v em body tr0 = Inr (um, tr3)"
    by (rule flowise_try_truthy_reached)
  from flowise_prepare_Inr(2)[OF this] obtain d ms where
    body: "body = PDict d" and ms: "map_of d ''messages'' = Some (PList ms)"
    by blast
  show ?thesis
    using assms(2) ms
    by (simp add: flowise_finish_def body append_message_list[OF ms] messages_of_def
        map_of_dict_set)
qed

text \<open>
  C10. When the \<^verbatim>\<open>try\<close> statement of the Flowise adapter is left at its end with a
  \<^verbatim>\<open>full_response_content\<close> that is empty (not true), \<^verbatim>\<open>pipe\<close> returns
  \<^verbatim>\<open>{"error": ...}\<close> with \<^verbatim>\<open>last_error_message\<close> or the unknown-error text, and leaves
  the body as it was. When the content is true, \<^verbatim>\<open>pipe\<close> returns it and the messages of
  the body gain the assistant message that carries it. A call that changes the body at all
  is of the second kind. (For a string, true means non-empty.)
\<close>

theorem flowise_empty_content_is_error:
  "(flowise_try py v em post body (flowise_start v em) = Finished content last_error tr
      \<and> \<not> truthy content \<longrightarrow>
        flowise_pipe py v em post body =
          (Inr (error_dict (flowise_final_error last_error)), body,
           flowise_status v em ''error''
             (''Flowise Pipe Failed: '' @ flowise_final_error last_error) True tr))
   \<and> (flowise_try py v em post body (flowise_start v em) = Finished content last_error tr
      \<and> truthy content \<longrightarrow>
        fst (flowise_pipe py v em post body) = Inr content
        \<and> messages_of (fst (snd (flowise_pipe py v em post body))) =
            messages_of body @ [assistant_message content])
   \<and> (fst (snd (flowise_pipe py v em post body)) \<noteq> body \<longrightarrow>
        (\<exists>c. truthy c \<and> fst (flowise_pipe py v em post body) = Inr c
           \<and> messages_of (fst (snd (flowise_pipe py v em post body))) =
               messages_of body @ [assistant_message c]))"
proof (intro conjI impI)
  assume "flowise_try py v em post body (flowise_start v em) = Finished content last_error tr
            \<and> \<not> truthy content"
  then show "flowise_pipe py v em post body =
          (Inr (error_dict (flowise_final_error last_error)), body,
           flowise_status v em ''error''
             (''Flowise Pipe Failed: '' @ flowise_final_error last_error) True tr)"
    by (simp add: flowise_pipe_def flowise_finish_def Let_def)
next
  assume a: "flowise_try py v em post body (flowise_start v em) = Finished content last_error tr
            \<and> truthy content"
  then obtain body' where "flowise_finish v em body content last_error tr = (Inr content, body', tr)"
    and "messages_of body' = messages_of body @ [assistant_message content]"
    using flowise_finish_truthy by blast
  with a show "fst (flowise_pipe py v em post body) = Inr content"
    and "messages_of (fst (snd (flowise_pipe py v em post body))) =
            messages_of body @ [assistant_message content]"
    by (simp_all add: flowise_pipe_def)
next
  assume changed: "fst (snd (flowise_pipe py v em post body)) \<noteq> body"
  show "\<exists>c. truthy c \<and> fst (flowise_pipe py v em post body) = Inr c
           \<and> messages_of (fst (snd (flowise_pipe py v em post body))) =
               messages_of body @ [assistant_message c]"
  proof (cases "flowise_try py v em post body (flowise_start v em)")
    case (Returned val t)
    with changed show ?thesis by (simp add: flowise_pipe_def)
  next
    case (Finished c e t)
    with changed have t: "truthy c"
      by (cases "truthy c") (simp_all add: flowise_pipe_def flowise_finish_def Let_def)
    from flowise_finish_truthy[OF Finished t] Finished t show ?thesis
      by (auto simp: flowise_pipe_def)
  qed
qed

theorem flowise_empty_content_is_error_witness:
  "flowise_try py_ref ex_flowise_valves None (Inr ex_end_only_response) ex_body
      (flowise_start ex_flowise_valves None) =
     Finished (PStr []) None
       [Post ''https://flowise.example/api/v1/prediction/bot''
          (PDict [(''Cache-Control'', PStr ''no-cache''), (''Connection'', PStr ''keep-alive''),
                  (''Content-Type'', PStr ''application/json'')])
          (PDict [(''question'', PStr ''hello''), (''streaming'', PBool True)]),
        Close, Close]
   \<and> \<not> truthy (PStr [])
   \<and> fst (flowise_pipe py_ref ex_flowise_valves None (Inr ex_end_only_response) ex_body) =
       Inr (error_dict flowise_unknown_error)
   \<and> fst (snd (flowise_pipe py_ref ex_flowise_valves None (Inr ex_end_only_response) ex_body)) =
       ex_body
   \<and> run_content (flowise_try py_ref ex_flowise_valves None (Inr ex_stream_response) ex_body
        (flowise_start ex_flowise_valves None)) = Some (PStr ''AB'')
   \<and> truthy (PStr ''AB'')
   \<and> fst (flowise_pipe py_ref ex_flowise_valves None (Inr ex_stream_response) ex_body) =
       Inr (PStr ''AB'')
   \<and> messages_of (fst (snd (flowise_pipe py_ref ex_flowise_valves None (Inr ex_stream_response)
        ex_body))) =
       messages_of ex_body @ [PDict [(''role'', PStr ''assistant''), (''content'', PStr ''AB'')]]"
proof -
  let ?tr = "[Post ''https://flowise.example/api/v1/prediction/bot''
          (PDict [(''Cache-Control'', PStr ''no-cache''), (''Connection'', PStr ''keep-alive''),
                  (''Content-Type'', PStr ''application/json'')])
          (PDict [(''question'', PStr ''hello''), (''streaming'', PBool True)]),
        Close, Close]"
  have r1: "flowise_try py_ref ex_flowise_valves None (Inr ex_end_only_response) ex_body
      (flowise_start ex_flowise_valves None) = Finished (PStr []) None ?tr"
    by code_simp
  have r2: "flowise_try py_ref ex_flowise_valves None (Inr ex_stream_response) ex_body
      (flowise_start ex_flowise_valves None) = Finished (PStr ''AB'') None ?tr"
    by code_simp
  have e: "flowise_final_error None = flowise_unknown_error"
    by (simp add: flowise_final_error_def)
  show ?thesis
    using r1 r2 e
      flowise_empty_content_is_error [of py_ref ex_flowise_valves None "Inr ex_end_only_response"
        ex_body "PStr []" None ?tr]
      flowise_empty_content_is_error [of py_ref ex_flowise_valves None "Inr ex_stream_response"
        ex_body "PStr ''AB''" None ?tr]
    by (simp add: assistant_message_def)
qed

section \<open>The event stream\<close>

text \<open>The loop over the three lines of the specification, whatever follows them.\<close>

lemma sse_loop_tokens_then_end:
  assumes \<open>loads py ''{"event":"token","data":"A"}'' =
             Some (PDict [(''event'', PStr ''token''), (''data'', PStr ''A'')])\<close>
    and \<open>loads py ''{"event":"token","data":"B"}'' =
             Some (PDict [(''event'', PStr ''token''), (''data'', PStr ''B'')])\<close>
    and \<open>loads py ''{"event":"end"}'' = Some (PDict [(''event'', PStr ''end'')])\<close>
  shows \<open>sse_loop py v em
           ([Line ''data: {"event":"token","data":"A"}'',
             Line ''data: {"event":"token","data":"B"}'',
             Line ''data: {"event":"end"}''] @ rest) ([], 0, tr) =
         ((''AB'', 2,
           flowise_emit_status v em ''info'' [] False True (PStr ''B'')
             (flowise_emit_status v em ''info'' [] False True (PStr ''A'') tr)), None)\<close>
  using assms
  by (simp add: startswith_def strip_def is_space_def dict_get_def Let_def)


text \<open>
  C2. Streaming enabled, a 2xx response whose \<^verbatim>\<open>Content-Type\<close> contains
  \<^verbatim>\<open>text/event-stream\<close>, and a body whose lines are the two token events for \<^verbatim>\<open>A\<close> and
  \<^verbatim>\<open>B\<close>, the end event, and then any lines \<open>rest\<close>: if \<^verbatim>\<open>json.loads\<close> decodes the
  three payloads as JSON prescribes, a call that makes the POST accumulates and returns
  \<^verbatim>\<open>"AB"\<close>, and the whole call (result, body, effects) is the one it would be if the
  stream ended with the end event: no line of \<open>rest\<close> is processed.
\<close>

theorem flowise_sse_token_stream:
  assumes \<open>loads py ''{"event":"token","data":"A"}'' =
             Some (PDict [(''event'', PStr ''token''), (''data'', PStr ''A'')])\<close>
    and \<open>loads py ''{"event":"token","data":"B"}'' =
             Some (PDict [(''event'', PStr ''token''), (''data'', PStr ''B'')])\<close>
    and \<open>loads py ''{"event":"end"}'' = Some (PDict [(''event'', PStr ''end'')])\<close>
    and "enable_streaming v"
    and "200 \<le> status_code r" and "status_code r < 300"
    and "content_type r = Some ct" and "contains ct ''text/event-stream''"
    and \<open>body_lines r =
           [Line ''data: {"event":"token","data":"A"}'',
            Line ''data: {"event":"token","data":"B"}'',
            Line ''data: {"event":"end"}''] @ rest\<close>
    and "posts (snd (snd (flowise_pipe py v em (Inr r) body))) \<noteq> []"
  shows \<open>fst (flowise_pipe py v em (Inr r) body) = Inr (PStr ''AB'')
         \<and> run_content (flowise_try py v em (Inr r) body (flowise_start v em)) = Some (PStr ''AB'')
         \<and> flowise_pipe py v em (Inr r) body =
             flowise_pipe py v em
               (Inr (r\<lparr>body_lines :=
                        [Line ''data: {"event":"token","data":"A"}'',
                         Line ''data: {"event":"token","data":"B"}'',
                         Line ''data: {"event":"end"}'']\<rparr>)) body\<close>
proof -
  let ?lines = \<open>[Line ''data: {"event":"token","data":"A"}'',
                 Line ''data: {"event":"token","data":"B"}'',
                 Line ''data: {"event":"end"}'']\<close>
  let ?r' = "r\<lparr>body_lines := ?lines\<rparr>"
  note loop = sse_loop_tokens_then_end [OF assms(1-3), unfolded append_Cons append_Nil]
  have stream: "flowise_streaming py v em r tr =
      (PStr ''AB'',
       flowise_status v em ''info''
         (''Streaming complete. Processed '' @ fmt py (PInt (int 2)) @ '' data events.'') True
         (flowise_emit_status v em ''info'' [] False True (PStr ''B'')
            (flowise_emit_status v em ''info'' [] False True (PStr ''A'')
               (flowise_status v em ''info''
                  ''Processing streaming response (manual SSE parsing)...'' False tr))
          @ [Close]) @ [Close])" for tr
    using assms(7,8)
    by (simp add: flowise_streaming_def Let_def assms(9) loop del: sse_loop.simps)
  have "flowise_streaming py v em ?r' tr =
      (PStr ''AB'',
       flowise_status v em ''info''
         (''Streaming complete. Processed '' @ fmt py (PInt (int 2)) @ '' data events.'') True
         (flowise_emit_status v em ''info'' [] False True (PStr ''B'')
            (flowise_emit_status v em ''info'' [] False True (PStr ''A'')
               (flowise_status v em ''info''
                  ''Processing streaming response (manual SSE parsing)...'' False tr))
          @ [Close]) @ [Close])" for tr
    using assms(7,8)
    by (simp add: flowise_streaming_def Let_def loop del: sse_loop.simps)
  then have stream': "flowise_streaming py v em ?r' tr = flowise_streaming py v em r tr" for tr
    by (simp only: stream)
  from assms(10) obtain um tr3 where
    prep: "flowise_prepare py v em body (flowise_start v em) = Inr (um, tr3)"
    by (rule flowise_pipe_reached)
  have after: "flowise_after_post py v em ?r' tr = flowise_after_post py v em r tr" for tr
    using assms(4,5,6) by (simp add: flowise_after_post_def Let_def stream')
  have same: "flowise_pipe py v em (Inr ?r') body = flowise_pipe py v em (Inr r) body"
    by (simp add: flowise_pipe_def flowise_try_reached[OF prep] after)
  have "\<exists>t. flowise_try py v em (Inr r) body (flowise_start v em) = Finished (PStr ''AB'') None t"
    using assms(4,5,6)
    by (simp add: flowise_try_reached[OF prep] flowise_after_post_def Let_def stream)
  then obtain t where
    run: "flowise_try py v em (Inr r) body (flowise_start v em) = Finished (PStr ''AB'') None t" ..
  from flowise_finish_truthy[OF run] have "fst (flowise_pipe py v em (Inr r) body) = Inr (PStr ''AB'')"
    by (auto simp: flowise_pipe_def run)
  then show ?thesis
    by (simp add: same run)
qed

theorem flowise_sse_token_stream_witness:
  \<open>loads py_ref ''{"event":"token","data":"A"}'' =
      Some (PDict [(''event'', PStr ''token''), (''data'', PStr ''A'')])
   \<and> loads py_ref ''{"event":"token","data":"B"}'' =
      Some (PDict [(''event'', PStr ''token''), (''data'', PStr ''B'')])
   \<and> loads py_ref ''{"event":"end"}'' = Some (PDict [(''event'', PStr ''end'')])
   \<and> enable_streaming ex_flowise_valves
   \<and> 200 \<le> status_code ex_stream_response \<and> status_code ex_stream_response < 300
   \<and> content_type ex_stream_response = Some ''text/event-stream; charset=utf-8''
   \<and> contains ''text/event-stream; charset=utf-8'' ''text/event-stream''
   \<and> body_lines ex_stream_response =
        [Line ''data: {"event":"token","data":"A"}'',
         Line ''data: {"event":"token","data":"B"}'',
         Line ''data: {"event":"end"}''] @ [Line ''data: {"event":"token","data":"C"}'']
   \<and> posts (snd (snd (flowise_pipe py_ref ex_flowise_valves (Some []) (Inr ex_stream_response)
        ex_body))) \<noteq> []
   \<and> fst (flowise_pipe py_ref ex_flowise_valves (Some []) (Inr ex_stream_response) ex_body) =
        Inr (PStr ''AB'')
   \<and> flowise_pipe py_ref ex_flowise_valves (Some []) (Inr ex_stream_response) ex_body =
        flowise_pipe py_ref ex_flowise_valves (Some [])
          (Inr (ex_stream_response\<lparr>body_lines :=
                  [Line ''data: {"event":"token","data":"A"}'',
                   Line ''data: {"event":"token","data":"B"}'',
                   Line ''data: {"event":"end"}'']\<rparr>)) ex_body\<close>
proof -
  have h1: \<open>loads py_ref ''{"event":"token","data":"A"}'' =
      Some (PDict [(''event'', PStr ''token''), (''data'', PStr ''A'')])\<close>
    and h2: \<open>loads py_ref ''{"event":"token","data":"B"}'' =
      Some (PDict [(''event'', PStr ''token''), (''data'', PStr ''B'')])\<close>
    and h3: \<open>loads py_ref ''{"event":"end"}'' = Some (PDict [(''event'', PStr ''end'')])\<close>
    by (simp_all add: py_ref_def ref_loads_def ref_documents_def)
  have h4: "enable_streaming ex_flowise_valves"
    by (simp add: ex_flowise_valves_def)
  have h5: "200 \<le> status_code ex_stream_response" and h6: "status_code ex_stream_response < 300"
    and h7: "content_type ex_stream_response = Some ''text/event-stream; charset=utf-8''"
    and h9: \<open>body_lines ex_stream_response =
        [Line ''data: {"event":"token","data":"A"}'',
         Line ''data: {"event":"token","data":"B"}'',
         Line ''data: {"event":"end"}''] @ [Line ''data: {"event":"token","data":"C"}'']\<close>
    by (simp_all add: ex_stream_response_def)
  have h8: "contains ''text/event-stream; charset=utf-8'' ''text/event-stream''"
    by code_simp
  have h10: "posts (snd (snd (flowise_pipe py_ref ex_flowise_valves (Some [])
               (Inr ex_stream_response) ex_body))) \<noteq> []"
    by code_simp
  note c = flowise_sse_token_stream [OF h1 h2 h3 h4 h5 h6 h7 h8 h9 h10]
  show ?thesis
    by (intro conjI h1 h2 h3 h4 h5 h6 h7 h8 h9 h10 c[THEN conjunct1]
        c[THEN conjunct2, THEN conjunct2])
qed

section \<open>The fields of a JSON object (Flowise)\<close>

text \<open>The two chains of \<^verbatim>\<open>or\<close> pick the first field whose value is true.\<close>

lemma flowise_fields_first_truthy:
  "flowise_fields py d =
     or_document py d (first_truthy d [''text'', ''answer'', ''response'', ''output''])"
  by (simp add: flowise_fields_def py_or_def or_document_def)

lemma flowise_fallback_fields_first_truthy:
  "flowise_fallback_fields py d =
     or_document py d (first_truthy d [''text'', ''answer'', ''response''])"
  by (simp add: flowise_fallback_fields_def py_or_def or_document_def)

text \<open>
  C8, as amended. A call of the Flowise adapter that makes the POST and gets a 2xx response
  whose body is the JSON object \<open>d\<close>. With streaming disabled, the content is the value
  of the first of the fields \<^verbatim>\<open>text\<close>, \<^verbatim>\<open>answer\<close>, \<^verbatim>\<open>response\<close>, \<^verbatim>\<open>output\<close> whose
  value is true, else the stringified object. With streaming requested and a
  \<^verbatim>\<open>Content-Type\<close> that does not contain \<^verbatim>\<open>text/event-stream\<close>, it is the value of the
  first of \<^verbatim>\<open>text\<close>, \<^verbatim>\<open>answer\<close>, \<^verbatim>\<open>response\<close> whose value is true, and the
  stringified object when none of them and no \<^verbatim>\<open>output\<close> is true. A content that is true
  is what \<^verbatim>\<open>pipe\<close> returns; on either path \<^verbatim>\<open>{"answer": "hi"}\<close> yields \<^verbatim>\<open>"hi"\<close>.
\<close>

theorem flowise_json_object_content:
  assumes "json_result r = Inr (PDict d)"
    and "200 \<le> status_code r" and "status_code r < 300"
    and "posts (snd (snd (flowise_pipe py v em (Inr r) body))) \<noteq> []"
  shows "(\<not> enable_streaming v \<longrightarrow>
            run_content (flowise_try py v em (Inr r) body (flowise_start v em)) =
              Some (or_document py d
                      (first_truthy d [''text'', ''answer'', ''response'', ''output''])))
       \<and> (enable_streaming v
            \<and> \<not> contains (case content_type r of None \<Rightarrow> [] | Some c \<Rightarrow> c) ''text/event-stream''
            \<and> (first_truthy d [''text'', ''answer'', ''response''] = None
                 \<longrightarrow> \<not> truthy (dict_get d ''output'')) \<longrightarrow>
            run_content (flowise_try py v em (Inr r) body (flowise_start v em)) =
              Some (or_document py d
                      (first_truthy d [''text'', ''answer'', ''response''])))
       \<and> (run_content (flowise_try py v em (Inr r) body (flowise_start v em)) = Some c
            \<and> truthy c \<longrightarrow>
            fst (flowise_pipe py v em (Inr r) body) = Inr c)
       \<and> (d = [(''answer'', PStr ''hi'')]
            \<and> (enable_streaming v \<longrightarrow>
                 \<not> contains (case content_type r of None \<Rightarrow> [] | Some c \<Rightarrow> c)
                     ''text/event-stream'') \<longrightarrow>
            fst (flowise_pipe py v em (Inr r) body) = Inr (PStr ''hi''))"
proof -
  let ?run = "flowise_try py v em (Inr r) body (flowise_start v em)"
  let ?ct = "case content_type r of None \<Rightarrow> [] | Some c \<Rightarrow> c"
  from assms(4) obtain um tr3 where
    prep: "flowise_prepare py v em body (flowise_start v em) = Inr (um, tr3)"
    by (rule flowise_pipe_reached)
  have plain: "run_content ?run = Some (flowise_fields py d)" if "\<not> enable_streaming v"
    using that assms(1,2,3)
    by (simp add: flowise_try_reached[OF prep] flowise_after_post_def flowise_non_streaming_def
        Let_def)
  have fallback: "run_content ?run = Some (flowise_fallback_fields py d)"
    if "enable_streaming v" "\<not> contains ?ct ''text/event-stream''"
    using that assms(1,2,3)
    by (simp add: flowise_try_reached[OF prep] flowise_after_post_def flowise_streaming_def
        Let_def)
  have returned: "fst (flowise_pipe py v em (Inr r) body) = Inr c'"
    if "run_content ?run = Some c'" "truthy c'" for c'
  proof -
    from that(1) obtain e t where run: "?run = Finished c' e t"
      by (cases ?run) auto
    from flowise_finish_truthy[OF run that(2)] show ?thesis
      by (auto simp: flowise_pipe_def run)
  qed
  have hi: "fst (flowise_pipe py v em (Inr r) body) = Inr (PStr ''hi'')"
    if "d = [(''answer'', PStr ''hi'')]" "enable_streaming v \<longrightarrow> \<not> contains ?ct ''text/event-stream''"
  proof (cases "enable_streaming v")
    case True
    with that fallback have "run_content ?run = Some (PStr ''hi'')"
      by (simp add: flowise_fallback_fields_def py_or_def dict_get_def)
    then show ?thesis by (rule returned) simp
  next
    case False
    with that plain have "run_content ?run = Some (PStr ''hi'')"
      by (simp add: flowise_fields_def py_or_def dict_get_def)
    then show ?thesis by (rule returned) simp
  qed
  show ?thesis
    using plain fallback returned hi
    by (auto simp: flowise_fields_first_truthy flowise_fallback_fields_first_truthy)
qed


theorem flowise_json_object_content_witness:
  "json_result (ex_json_response 200 (PDict [(''answer'', PStr ''hi'')])) =
     Inr (PDict [(''answer'', PStr ''hi'')])
   \<and> 200 \<le> status_code (ex_json_response 200 (PDict [(''answer'', PStr ''hi'')]))
   \<and> status_code (ex_json_response 200 (PDict [(''answer'', PStr ''hi'')])) < 300
   \<and> posts (snd (snd (flowise_pipe py_ref ex_flowise_valves (Some [])
        (Inr (ex_json_response 200 (PDict [(''answer'', PStr ''hi'')]))) ex_body))) \<noteq> []
   \<and> enable_streaming ex_flowise_valves
   \<and> \<not> contains ''application/json'' ''text/event-stream''
   \<and> run_content (flowise_try py_ref ex_flowise_valves (Some [])
        (Inr (ex_json_response 200 (PDict [(''answer'', PStr ''hi'')]))) ex_body
        (flowise_start ex_flowise_valves (Some []))) = Some (PStr ''hi'')
   \<and> truthy (PStr ''hi'')
   \<and> fst (flowise_pipe py_ref ex_flowise_valves (Some [])
        (Inr (ex_json_response 200 (PDict [(''answer'', PStr ''hi'')]))) ex_body) =
       Inr (PStr ''hi'')
   \<and> \<not> enable_streaming ex_flowise_plain_valves
   \<and> posts (snd (snd (flowise_pipe py_ref ex_flowise_plain_valves (Some [])
        (Inr (ex_json_response 200 (PDict [(''answer'', PStr ''hi'')]))) ex_body))) \<noteq> []
   \<and> run_content (flowise_try py_ref ex_flowise_plain_valves (Some [])
        (Inr (ex_json_response 200 (PDict [(''answer'', PStr ''hi'')]))) ex_body
        (flowise_start ex_flowise_plain_valves (Some []))) = Some (PStr ''hi'')"
proof -
  let ?d = "[(''answer'', PStr ''hi'')]"
  let ?r = "ex_json_response 200 (PDict ?d)"
  have h1: "json_result ?r = Inr (PDict ?d)" and h2: "200 \<le> status_code ?r"
    and h3: "status_code ?r < 300" and ct: "content_type ?r = Some ''application/json''"
    by (simp_all add: ex_json_response_def)
  have h4: "posts (snd (snd (flowise_pipe py_ref ex_flowise_valves (Some []) (Inr ?r) ex_body))) \<noteq> []"
    by code_simp
  have h5: "posts (snd (snd (flowise_pipe py_ref ex_flowise_plain_valves (Some []) (Inr ?r)
              ex_body))) \<noteq> []"
    by code_simp
  have s1: "enable_streaming ex_flowise_valves" and s2: "\<not> enable_streaming ex_flowise_plain_valves"
    by (simp_all add: ex_flowise_valves_def ex_flowise_plain_valves_def)
  have c: "\<not> contains ''application/json'' ''text/event-stream''"
    by code_simp
  have t: "truthy (PStr ''hi'')" by simp
  have f3: "first_truthy ?d [''text'', ''answer'', ''response''] = Some (PStr ''hi'')"
    and f4: "first_truthy ?d [''text'', ''answer'', ''response'', ''output''] = Some (PStr ''hi'')"
    by (simp_all add: dict_get_def)
  note a = flowise_json_object_content [OF h1 h2 h3 h4, of "PStr ''hi''"]
  note b = flowise_json_object_content [OF h1 h2 h3 h5, of "PStr ''hi''"]
  have ct': "\<not> contains (case content_type ?r of None \<Rightarrow> [] | Some c \<Rightarrow> c) ''text/event-stream''"
    using c by (simp add: ct del: contains.simps)
  have "run_content (flowise_try py_ref ex_flowise_valves (Some []) (Inr ?r) ex_body
              (flowise_start ex_flowise_valves (Some []))) =
          Some (or_document py_ref ?d (first_truthy ?d [''text'', ''answer'', ''response'']))"
    by (rule a[THEN conjunct2, THEN conjunct1, THEN mp]) (simp add: s1 ct' f3 del: first_truthy.simps)
  then have a2: "run_content (flowise_try py_ref ex_flowise_valves (Some []) (Inr ?r) ex_body
              (flowise_start ex_flowise_valves (Some []))) = Some (PStr ''hi'')"
    by (simp add: f3 or_document_def del: first_truthy.simps)
  have a4: "fst (flowise_pipe py_ref ex_flowise_valves (Some []) (Inr ?r) ex_body) = Inr (PStr ''hi'')"
    by (rule a[THEN conjunct2, THEN conjunct2, THEN conjunct2, THEN mp]) (simp add: s1 ct')
  have "run_content (flowise_try py_ref ex_flowise_plain_valves (Some []) (Inr ?r) ex_body
              (flowise_start ex_flowise_plain_valves (Some []))) =
          Some (or_document py_ref ?d
                  (first_truthy ?d [''text'', ''answer'', ''response'', ''output'']))"
    by (rule b[THEN conjunct1, THEN mp]) (rule s2)
  then have b1: "run_content (flowise_try py_ref ex_flowise_plain_valves (Some []) (Inr ?r) ex_body
              (flowise_start ex_flowise_plain_valves (Some []))) = Some (PStr ''hi'')"
    by (simp add: f4 or_document_def del: first_truthy.simps)
  show ?thesis
    by (intro conjI h1 h2 h3 h4 h5 s1 s2 c t a2 a4 b1)
qed

text \<open>
  The claim as first stated takes the first field that is present, and looks for
  \<^verbatim>\<open>output\<close> on both paths. With streaming disabled, \<^verbatim>\<open>{"text": "", "answer": "hi"}\<close>
  has \<^verbatim>\<open>text\<close> present and yields \<^verbatim>\<open>"hi"\<close>; with streaming requested and a JSON
  \<^verbatim>\<open>Content-Type\<close>, \<^verbatim>\<open>{"output": "x"}\<close> yields the stringified object.
\<close>

theorem flowise_first_present_counterexample:
  "first_present [(''text'', PStr []), (''answer'', PStr ''hi'')]
      [''text'', ''answer'', ''response'', ''output''] = Some (PStr [])
   \<and> fst (flowise_pipe py_ref ex_flowise_plain_valves None
        (Inr (ex_json_response 200 (PDict [(''text'', PStr []), (''answer'', PStr ''hi'')])))
        ex_body) = Inr (PStr ''hi'')
   \<and> first_present [(''output'', PStr ''x'')]
        [''text'', ''answer'', ''response'', ''output''] = Some (PStr ''x'')
   \<and> enable_streaming ex_flowise_valves
   \<and> \<not> contains ''application/json'' ''text/event-stream''
   \<and> fst (flowise_pipe py_ref ex_flowise_valves None
        (Inr (ex_json_response 200 (PDict [(''output'', PStr ''x'')]))) ex_body) =
       Inr (PStr (''{'' @ quote @ ''output'' @ quote @ '': '' @ quote @ ''x'' @ quote @ ''}''))"
  by code_simp

section \<open>The response of the n8n workflow\<close>

text \<open>
  A call that made the POST got through the stages before it: its body is a dict (given
  as such or as a JSON string) whose messages are a list, so that the append at the end of
  the call succeeds.
\<close>

lemma n8n_pipe_reached:
  assumes "posts (n8n_trace (snd (snd (n8n_pipe py v clock em post body prev)))) \<noteq> []"
  obtains d payload w1 ms where
    "n8n_pipe py v clock em post body prev =
       n8n_pipe_dict py v clock em post d \<lparr>last_emit_time = prev, clock_reads = 0, n8n_trace = []\<rparr>"
    and "n8n_prepare v clock em d \<lparr>last_emit_time = prev, clock_reads = 0, n8n_trace = []\<rparr> =
           Inr (payload, w1)"
    and "map_of d ''messages'' = Some (PList ms)"
    and "body = PDict d \<or> (\<exists>s. body = PStr s \<and> loads py s = Some (PDict d))"
proof -
  define w0 where "w0 = \<lparr>last_emit_time = prev, clock_reads = 0, n8n_trace = []\<rparr>"
  have empty: "posts (n8n_trace w0) = []" by (simp add: w0_def)
  from assms obtain d where
    pipe: "n8n_pipe py v clock em post body prev = n8n_pipe_dict py v clock em post d w0"
    and body: "body = PDict d \<or> (\<exists>s. body = PStr s \<and> loads py s = Some (PDict d))"
    by (auto simp: n8n_pipe_def Let_def w0_def split: pyval.splits option.splits)
  from assms have "posts (n8n_trace (snd (snd (n8n_pipe_dict py v clock em post d w0))))
                     \<noteq> posts (n8n_trace w0)"
    by (simp add: pipe empty)
  then obtain payload w1 where prep: "n8n_prepare v clock em d w0 = Inr (payload, w1)"
    by (rule n8n_pipe_dict_reached)
  from n8n_prepare_Inr(2)[OF prep] obtain ms where "map_of d ''messages'' = Some (PList ms)"
    by blast
  with pipe prep body show ?thesis
    using that by (simp add: w0_def)
qed

lemma n8n_finish_error:
  "map_of d ''messages'' = Some (PList ms) \<Longrightarrow> msg \<noteq> [] \<Longrightarrow>
     fst (n8n_finish v clock em (PDict d) PNone (Some msg) w) = Inr (error_dict msg)"
  by (simp add: n8n_finish_def n8n_final_error_def append_message_list Let_def)

lemma n8n_finish_content:
  "map_of d ''messages'' = Some (PList ms) \<Longrightarrow> c \<noteq> PNone \<Longrightarrow>
     fst (n8n_finish v clock em (PDict d) c e w) = Inr c"
  by (simp add: n8n_finish_def append_message_list)

lemma n8n_exchange_success:
  assumes "200 \<le> status_code r" and "status_code r < 300"
    and "n8n_success_body py v clock em r
           ((n8n_emit v clock em ''info'' ''Sending request to N8N...'' False w)
              \<lparr>n8n_trace := n8n_trace (n8n_emit v clock em ''info'' ''Sending request to N8N...''
                                         False w)
                 @ [Post (n8n_url v) (PDict (n8n_headers v)) (PDict payload)]\<rparr>) = Inr res"
  shows "n8n_exchange py v clock em (Inr r) payload w = res"
  using assms by (simp add: n8n_exchange_def n8n_classify_def Let_def)

text \<open>
  C7. A call of the n8n adapter that makes the POST and gets a 2xx response. If the JSON
  body is \<^verbatim>\<open>[{"output": "ok"}]\<close> and \<^verbatim>\<open>response_field\<close> is \<^verbatim>\<open>"output"\<close>, \<^verbatim>\<open>pipe\<close>
  returns \<^verbatim>\<open>"ok"\<close>. If the JSON body is \<^verbatim>\<open>[]\<close>, it returns the error whose text says
  that an empty list was received. If the JSON body is an object \<open>d\<close>, or a list whose
  first element is an object \<open>d\<close>, and \<open>d\<close> has no \<^verbatim>\<open>response_field\<close>, it returns the
  error whose text holds \<^verbatim>\<open>Available keys:\<close> followed by the list of the keys of \<open>d\<close>.
\<close>

theorem n8n_response_extraction:
  assumes "200 \<le> status_code r" and "status_code r < 300"
    and "posts (n8n_trace (snd (snd (n8n_pipe py v clock em (Inr r) body prev)))) \<noteq> []"
  shows "(json_result r = Inr (PList [PDict [(''output'', PStr ''ok'')]])
            \<and> response_field v = ''output'' \<longrightarrow>
          fst (n8n_pipe py v clock em (Inr r) body prev) = Inr (PStr ''ok''))
       \<and> (json_result r = Inr (PList []) \<longrightarrow>
          fst (n8n_pipe py v clock em (Inr r) body prev) =
            Inr (error_dict
                   ''Error processing N8N response: Received an empty list from N8N response.''))
       \<and> ((json_result r = Inr (PDict d) \<or> json_result r = Inr (PList (PDict d # rest)))
            \<and> map_of d (response_field v) = None \<longrightarrow>
          fst (n8n_pipe py v clock em (Inr r) body prev) =
            Inr (error_dict (n8n_missing_field_message py v r (PDict d)))
          \<and> (\<exists>before after.
                n8n_missing_field_message py v r (PDict d) =
                  before @ ''Available keys: ''
                  @ str_of py (PList (map (\<lambda>kv. PStr (fst kv)) d)) @ after))"
proof -
  from assms(3) obtain d' payload w1 ms where
    pipe: "n8n_pipe py v clock em (Inr r) body prev =
             n8n_pipe_dict py v clock em (Inr r) d'
               \<lparr>last_emit_time = prev, clock_reads = 0, n8n_trace = []\<rparr>"
    and prep: "n8n_prepare v clock em d' \<lparr>last_emit_time = prev, clock_reads = 0, n8n_trace = []\<rparr>
                 = Inr (payload, w1)"
    and ms: "map_of d' ''messages'' = Some (PList ms)"
    by (rule n8n_pipe_reached)
  define w2 where
    "w2 = (n8n_emit v clock em ''info'' ''Sending request to N8N...'' False w1)
            \<lparr>n8n_trace := n8n_trace (n8n_emit v clock em ''info'' ''Sending request to N8N...''
                                       False w1)
               @ [Post (n8n_url v) (PDict (n8n_headers v)) (PDict payload)]\<rparr>"
  have result: "fst (n8n_pipe py v clock em (Inr r) body prev) =
                  fst (n8n_finish v clock em (PDict d') c e w')"
    if "n8n_success_body py v clock em r w2 = Inr (c, e, w')" for c e w'
    using n8n_exchange_success[OF assms(1,2) that[unfolded w2_def]]
    by (simp add: pipe n8n_pipe_dict_def prep)
  have ok: "fst (n8n_pipe py v clock em (Inr r) body prev) = Inr (PStr ''ok'')"
    if "json_result r = Inr (PList [PDict [(''output'', PStr ''ok'')]])" "response_field v = ''output''"
  proof -
    have "n8n_success_body py v clock em r w2 = Inr (PStr ''ok'', None, w2)"
      using that by (simp add: n8n_success_body_def)
    from result[OF this] show ?thesis
      by (simp add: n8n_finish_content[OF ms])
  qed
  have empty: "fst (n8n_pipe py v clock em (Inr r) body prev) =
            Inr (error_dict
                   ''Error processing N8N response: Received an empty list from N8N response.'')"
    if "json_result r = Inr (PList [])"
  proof -
    let ?msg = "''Error processing N8N response: Received an empty list from N8N response.''"
    have "n8n_success_body py v clock em r w2 =
            Inr (PNone, Some ?msg, n8n_emit v clock em ''error'' ?msg True w2)"
      using that by (simp add: n8n_success_body_def exn_str_def Let_def)
    from result[OF this] show ?thesis
      by (simp add: n8n_finish_error[OF ms])
  qed
  have missing: "fst (n8n_pipe py v clock em (Inr r) body prev) =
            Inr (error_dict (n8n_missing_field_message py v r (PDict d)))"
    if "json_result r = Inr (PDict d) \<or> json_result r = Inr (PList (PDict d # rest))"
      "map_of d (response_field v) = None"
  proof -
    let ?msg = "n8n_missing_field_message py v r (PDict d)"
    have ne: "?msg \<noteq> []"
      by (simp add: n8n_missing_field_message_def)
    have "n8n_success_body py v clock em r w2 =
            Inr (PNone, Some ?msg, n8n_emit v clock em ''error'' ?msg True w2)"
      using that by (auto simp: n8n_success_body_def Let_def)
    from result[OF this] show ?thesis
      by (simp add: n8n_finish_error[OF ms ne])
  qed
  have keys: "\<exists>before after.
                n8n_missing_field_message py v r (PDict d) =
                  before @ ''Available keys: ''
                  @ str_of py (PList (map (\<lambda>kv. PStr (fst kv)) d)) @ after"
    unfolding n8n_missing_field_message_def
    by (rule exI[where x = "''N8N workflow responded successfully (status ''
                             @ fmt py (PInt (status_code r)) @ '') ''
                             @ ''but missing expected response field '' @ quote
                             @ response_field v @ quote @ ''. ''"],
        rule exI[where x = "''. '' @ ''Response snippet: '' @ take 150 (body_text r) @ ''...''"])
       (simp add: fmt_def)
  show ?thesis
    using ok empty missing keys by blast
qed

theorem n8n_response_extraction_witness:
  "200 \<le> status_code (ex_json_response 200 (PList [PDict [(''output'', PStr ''ok'')]]))
   \<and> status_code (ex_json_response 200 (PList [PDict [(''output'', PStr ''ok'')]])) < 300
   \<and> posts (n8n_trace (snd (snd (n8n_pipe py_ref ex_n8n_valves ex_clock (Some [])
        (Inr (ex_json_response 200 (PList [PDict [(''output'', PStr ''ok'')]]))) ex_body 0)))) \<noteq> []
   \<and> json_result (ex_json_response 200 (PList [PDict [(''output'', PStr ''ok'')]])) =
        Inr (PList [PDict [(''output'', PStr ''ok'')]])
   \<and> response_field ex_n8n_valves = ''output''
   \<and> fst (n8n_pipe py_ref ex_n8n_valves ex_clock (Some [])
        (Inr (ex_json_response 200 (PList [PDict [(''output'', PStr ''ok'')]]))) ex_body 0) =
       Inr (PStr ''ok'')
   \<and> posts (n8n_trace (snd (snd (n8n_pipe py_ref ex_n8n_valves ex_clock (Some [])
        (Inr (ex_json_response 200 (PList []))) ex_body 0)))) \<noteq> []
   \<and> json_result (ex_json_response 200 (PList [])) = Inr (PList [])
   \<and> fst (n8n_pipe py_ref ex_n8n_valves ex_clock (Some [])
        (Inr (ex_json_response 200 (PList []))) ex_body 0) =
       Inr (error_dict
              ''Error processing N8N response: Received an empty list from N8N response.'')
   \<and> posts (n8n_trace (snd (snd (n8n_pipe py_ref ex_n8n_valves ex_clock (Some [])
        (Inr (ex_json_response 200 (PDict [(''result'', PStr ''ok''), (''status'', PInt 1)])))
        ex_body 0)))) \<noteq> []
   \<and> json_result (ex_json_response 200 (PDict [(''result'', PStr ''ok''), (''status'', PInt 1)])) =
        Inr (PDict [(''result'', PStr ''ok''), (''status'', PInt 1)])
   \<and> map_of [(''result'', PStr ''ok''), (''status'', PInt 1)] (response_field ex_n8n_valves) = None
   \<and> fst (n8n_pipe py_ref ex_n8n_valves ex_clock (Some [])
        (Inr (ex_json_response 200 (PDict [(''result'', PStr ''ok''), (''status'', PInt 1)])))
        ex_body 0) =
       Inr (error_dict
              ''N8N workflow responded successfully (status 200) but missing expected response field 'output'. Available keys: ['result', 'status']. Response snippet: (body)...'')"
proof -
  let ?ok = "ex_json_response 200 (PList [PDict [(''output'', PStr ''ok'')]])"
  let ?empty = "ex_json_response 200 (PList [])"
  let ?d = "[(''result'', PStr ''ok''), (''status'', PInt 1)]"
  let ?missing = "ex_json_response 200 (PDict ?d)"
  have s1: "200 \<le> status_code (ex_json_response 200 doc)"
    and s2: "status_code (ex_json_response 200 doc) < 300"
    and j: "json_result (ex_json_response 200 doc) = Inr doc" for doc
    by (simp_all add: ex_json_response_def)
  have f: "response_field ex_n8n_valves = ''output''"
    by (simp add: ex_n8n_valves_def)
  have m: "map_of ?d (response_field ex_n8n_valves) = None"
    by (simp add: f)
  have p1: "posts (n8n_trace (snd (snd (n8n_pipe py_ref ex_n8n_valves ex_clock (Some [])
              (Inr ?ok) ex_body 0)))) \<noteq> []"
    by code_simp
  have p2: "posts (n8n_trace (snd (snd (n8n_pipe py_ref ex_n8n_valves ex_clock (Some [])
              (Inr ?empty) ex_body 0)))) \<noteq> []"
    by code_simp
  have p3: "posts (n8n_trace (snd (snd (n8n_pipe py_ref ex_n8n_valves ex_clock (Some [])
              (Inr ?missing) ex_body 0)))) \<noteq> []"
    by code_simp
  have shown: "n8n_missing_field_message py_ref ex_n8n_valves ?missing (PDict ?d) =
     ''N8N workflow responded successfully (status 200) but missing expected response field 'output'. Available keys: ['result', 'status']. Response snippet: (body)...''"
    by code_simp
  have c1: "fst (n8n_pipe py_ref ex_n8n_valves ex_clock (Some []) (Inr ?ok) ex_body 0) =
              Inr (PStr ''ok'')"
    by (rule n8n_response_extraction [OF s1 s2 p1, THEN conjunct1, THEN mp]) (simp add: j f)
  have c2: "fst (n8n_pipe py_ref ex_n8n_valves ex_clock (Some []) (Inr ?empty) ex_body 0) =
              Inr (error_dict
                ''Error processing N8N response: Received an empty list from N8N response.'')"
    by (rule n8n_response_extraction [OF s1 s2 p2, THEN conjunct2, THEN conjunct1, THEN mp])
       (rule j)
  have "fst (n8n_pipe py_ref ex_n8n_valves ex_clock (Some []) (Inr ?missing) ex_body 0) =
              Inr (error_dict (n8n_missing_field_message py_ref ex_n8n_valves ?missing (PDict ?d)))"
    by (rule n8n_response_extraction [OF s1 s2 p3, of _ "[]", THEN conjunct2, THEN conjunct2,
          THEN mp, THEN conjunct1])
       (simp add: j m del: map_of.simps)
  then have c3: "fst (n8n_pipe py_ref ex_n8n_valves ex_clock (Some []) (Inr ?missing) ex_body 0) =
       Inr (error_dict
              ''N8N workflow responded successfully (status 200) but missing expected response field 'output'. Available keys: ['result', 'status']. Response snippet: (body)...'')"
    by (simp only: shown)
  show ?thesis
    by (intro conjI s1 s2 j f m p1 p2 p3 c1 c2 c3)
qed

section \<open>A body given as a JSON string (n8n)\<close>

text \<open>
  C9. When the body of a call of the n8n adapter is a string \<open>s\<close>: if \<^verbatim>\<open>json.loads\<close>
  decodes \<open>s\<close> to a dict \<open>d\<close>, the call is, in result, body and effects, the call with
  \<open>d\<close> as body; if \<open>s\<close> is not JSON, or decodes to a value that is not a dict, the call
  returns \<^verbatim>\<open>{"error": ...}\<close> and its effects hold no POST.
\<close>

theorem n8n_string_body:
  "(loads py s = Some (PDict d) \<longrightarrow>
      n8n_pipe py v clock em post (PStr s) prev = n8n_pipe py v clock em post (PDict d) prev)
   \<and> (loads py s = None \<longrightarrow>
      fst (n8n_pipe py v clock em post (PStr s) prev) =
        Inr (error_dict (''Invalid JSON string received in '' @ quote @ ''body'' @ quote @ ''.''))
      \<and> posts (n8n_trace (snd (snd (n8n_pipe py v clock em post (PStr s) prev)))) = [])
   \<and> (loads py s = Some x \<and> \<not> is_dict x \<longrightarrow>
      fst (n8n_pipe py v clock em post (PStr s) prev) =
        Inr (error_dict (''Expected '' @ quote @ ''body'' @ quote
                         @ '' to be a dictionary but got '' @ type_name x @ ''.''))
      \<and> posts (n8n_trace (snd (snd (n8n_pipe py v clock em post (PStr s) prev)))) = [])"
  by (cases x) (simp_all add: n8n_pipe_def Let_def)

theorem n8n_string_body_witness:
  \<open>loads py_ref ''{"messages": [{"role": "user", "content": "hello"}]}'' =
      Some (PDict [(''messages'',
                    PList [PDict [(''role'', PStr ''user''), (''content'', PStr ''hello'')]])])
   \<and> n8n_pipe py_ref ex_n8n_valves ex_clock (Some [])
        (Inr (ex_json_response 200 (PDict [(''output'', PStr ''ok'')])))
        (PStr ''{"messages": [{"role": "user", "content": "hello"}]}'') 0 =
      n8n_pipe py_ref ex_n8n_valves ex_clock (Some [])
        (Inr (ex_json_response 200 (PDict [(''output'', PStr ''ok'')])))
        (PDict [(''messages'',
                 PList [PDict [(''role'', PStr ''user''), (''content'', PStr ''hello'')]])]) 0
   \<and> fst (n8n_pipe py_ref ex_n8n_valves ex_clock (Some [])
        (Inr (ex_json_response 200 (PDict [(''output'', PStr ''ok'')])))
        (PStr ''{"messages": [{"role": "user", "content": "hello"}]}'') 0) = Inr (PStr ''ok'')
   \<and> loads py_ref ''not json'' = None
   \<and> fst (n8n_pipe py_ref ex_n8n_valves ex_clock (Some []) ex_post_fails (PStr ''not json'') 0) =
        Inr (error_dict ''Invalid JSON string received in 'body'.'')
   \<and> posts (n8n_trace (snd (snd (n8n_pipe py_ref ex_n8n_valves ex_clock (Some []) ex_post_fails
        (PStr ''not json'') 0)))) = []
   \<and> loads py_ref ''[1, 2]'' = Some (PList [PInt 1, PInt 2])
   \<and> \<not> is_dict (PList [PInt 1, PInt 2])
   \<and> fst (n8n_pipe py_ref ex_n8n_valves ex_clock (Some []) ex_post_fails (PStr ''[1, 2]'') 0) =
        Inr (error_dict ''Expected 'body' to be a dictionary but got list.'')
   \<and> posts (n8n_trace (snd (snd (n8n_pipe py_ref ex_n8n_valves ex_clock (Some []) ex_post_fails
        (PStr ''[1, 2]'') 0)))) = []\<close>
proof -
  let ?d = "[(''messages'', PList [PDict [(''role'', PStr ''user''), (''content'', PStr ''hello'')]])]"
  let ?r = "Inr (ex_json_response 200 (PDict [(''output'', PStr ''ok'')]))"
  have l1: \<open>loads py_ref ''{"messages": [{"role": "user", "content": "hello"}]}'' = Some (PDict ?d)\<close>
    and l2: "loads py_ref ''not json'' = None"
    and l3: "loads py_ref ''[1, 2]'' = Some (PList [PInt 1, PInt 2])"
    by (simp_all add: py_ref_def ref_loads_def ref_documents_def)
  have nd: "\<not> is_dict (PList [PInt 1, PInt 2])" by simp
  have c1: \<open>n8n_pipe py_ref ex_n8n_valves ex_clock (Some []) ?r
              (PStr ''{"messages": [{"role": "user", "content": "hello"}]}'') 0 =
            n8n_pipe py_ref ex_n8n_valves ex_clock (Some []) ?r (PDict ?d) 0\<close>
    by (rule n8n_string_body [THEN conjunct1, THEN mp]) (rule l1)
  have ok: "fst (n8n_pipe py_ref ex_n8n_valves ex_clock (Some []) ?r (PDict ?d) 0) = Inr (PStr ''ok'')"
    by code_simp
  have c1': \<open>fst (n8n_pipe py_ref ex_n8n_valves ex_clock (Some []) ?r
              (PStr ''{"messages": [{"role": "user", "content": "hello"}]}'') 0) = Inr (PStr ''ok'')\<close>
    by (simp only: c1 ok)
  have q1: "''Invalid JSON string received in '' @ quote @ ''body'' @ quote @ ''.'' =
              ''Invalid JSON string received in 'body'.''"
    and q2: "''Expected '' @ quote @ ''body'' @ quote @ '' to be a dictionary but got ''
               @ type_name (PList [PInt 1, PInt 2]) @ ''.'' =
             ''Expected 'body' to be a dictionary but got list.''"
    by (simp_all add: quote_def)
  note c2 = n8n_string_body [THEN conjunct2, THEN conjunct1, THEN mp, OF l2,
      of ex_n8n_valves ex_clock "Some []" ex_post_fails 0, unfolded q1]
  have l3': "loads py_ref ''[1, 2]'' = Some (PList [PInt 1, PInt 2]) \<and> \<not> is_dict (PList [PInt 1, PInt 2])"
    using l3 nd by (rule conjI)
  note c3 = n8n_string_body [THEN conjunct2, THEN conjunct2, THEN mp, OF l3',
      of ex_n8n_valves ex_clock "Some []" ex_post_fails 0, unfolded q2]
  show ?thesis
    by (intro conjI l1 l2 l3 nd c1 c1' c2[THEN conjunct1] c2[THEN conjunct2]
        c3[THEN conjunct1] c3[THEN conjunct2])
qed

section \<open>What is sent\<close>

text \<open>
  Every POST of the Flowise adapter carries the content of the last message under
  \<^verbatim>\<open>question\<close>, and every POST of the n8n adapter carries it under \<^verbatim>\<open>input_field\<close> when
  that key is not \<^verbatim>\<open>systemPrompt\<close>.
\<close>

lemma set_posts: "set (posts tr) = {e \<in> set tr. is_post e}"
  by (auto simp: posts_def)

lemma flowise_sends_last_content:
  assumes "Post url headers (PDict p) \<in> set (snd (snd (flowise_pipe py v em post body)))"
  shows "\<exists>d ms m c. body = PDict d \<and> map_of d ''messages'' = Some (PList ms) \<and> ms \<noteq> []
           \<and> last ms = PDict m \<and> map_of m ''content'' = Some c
           \<and> map_of p ''question'' = Some c"
proof -
  from assms have mem: "Post url headers (PDict p) \<in> set (posts (snd (snd (flowise_pipe py v em post body))))"
    by (simp add: set_posts)
  then have "posts (snd (snd (flowise_pipe py v em post body))) \<noteq> []"
    by auto
  then obtain um tr3 where
    prep: "flowise_prepare py v em body (flowise_start v em) = Inr (um, tr3)"
    by (rule flowise_pipe_reached)
  from mem have p: "p = flowise_payload v um"
    by (simp add: flowise_pipe_posts prep)
  have "map_of (flowise_payload v um) ''question'' = Some um"
    by (simp add: flowise_payload_def Let_def)
  with flowise_prepare_Inr(2)[OF prep] p show ?thesis
    by blast
qed

lemma n8n_payload_input:
  assumes "input_field v \<noteq> ''systemPrompt'' \<or> \<not> truthy sp"
  shows "map_of (n8n_payload v chat_id q sp) (input_field v) = Some q"
  using assms by (auto simp: n8n_payload_def Let_def map_of_dict_set)

lemma n8n_sends_last_content:
  assumes "Post url headers (PDict p)
             \<in> set (n8n_trace (snd (snd (n8n_pipe py v clock em post (PDict d) prev))))"
    and "input_field v \<noteq> ''systemPrompt''"
  shows "\<exists>ms m c. map_of d ''messages'' = Some (PList ms) \<and> ms \<noteq> []
           \<and> last ms = PDict m \<and> map_of m ''content'' = Some c
           \<and> map_of p (input_field v) = Some c"
proof -
  define w0 where "w0 = \<lparr>last_emit_time = prev, clock_reads = 0, n8n_trace = []\<rparr>"
  have empty: "posts (n8n_trace w0) = []" by (simp add: w0_def)
  have pipe: "n8n_pipe py v clock em post (PDict d) prev = n8n_pipe_dict py v clock em post d w0"
    by (simp add: n8n_pipe_def w0_def)
  from assms(1) have mem: "Post url headers (PDict p)
      \<in> set (posts (n8n_trace (snd (snd (n8n_pipe_dict py v clock em post d w0)))))"
    by (simp add: set_posts pipe)
  then have "posts (n8n_trace (snd (snd (n8n_pipe_dict py v clock em post d w0))))
               \<noteq> posts (n8n_trace w0)"
    by (auto simp: empty)
  then obtain payload w1 where prep: "n8n_prepare v clock em d w0 = Inr (payload, w1)"
    by (rule n8n_pipe_dict_reached)
  from mem have p: "p = payload"
    by (simp add: n8n_pipe_dict_posts prep empty)
  from n8n_prepare_Inr(2)[OF prep] obtain ms m q sp where
    "map_of d ''messages'' = Some (PList ms)" "ms \<noteq> []" "last ms = PDict m"
    "map_of m ''content'' = Some q" "payload = n8n_payload v (fst (extract_event_info em)) q sp"
    by blast
  with p n8n_payload_input[of v sp "fst (extract_event_info em)" q] assms(2) show ?thesis
    by auto
qed

text \<open>
  C5. The claim is that the payload holds the content of the last message under the
  configured \<^verbatim>\<open>input_field\<close>. Evaluated with \<^verbatim>\<open>input_field\<close> set to \<^verbatim>\<open>systemPrompt\<close> on a
  conversation of a system message and the user message \<^verbatim>\<open>hello\<close>: line 195 writes the
  system prompt over the question that line 190 stored under the same key, and the payload
  of the POST holds \<^verbatim>\<open>Be brief.\<close> under \<^verbatim>\<open>systemPrompt\<close> and \<^verbatim>\<open>hello\<close> nowhere. With the
  default \<^verbatim>\<open>input_field\<close> the same conversation is sent with \<^verbatim>\<open>hello\<close> under
  \<^verbatim>\<open>chatInput\<close>.
\<close>

theorem n8n_system_prompt_replaces_input:
  "input_field ex_collision_valves = ''systemPrompt''
   \<and> last (messages_of ex_body_system) =
       PDict [(''role'', PStr ''user''), (''content'', PStr ''hello'')]
   \<and> posts (n8n_trace (snd (snd (n8n_pipe py_ref ex_collision_valves ex_clock None
        (Inr (ex_json_response 200 (PDict [(''output'', PStr ''ok'')]))) ex_body_system 0)))) =
       [Post ''https://n8n.example/webhook/chat''
          (PDict [(''Authorization'', PStr ''Bearer ...''),
                  (''Content-Type'', PStr ''application/json'')])
          (PDict [(''sessionId'', PStr ''unknown_session''),
                  (''systemPrompt'', PStr ''Be brief.'')])]
   \<and> posts (n8n_trace (snd (snd (n8n_pipe py_ref ex_n8n_valves ex_clock None
        (Inr (ex_json_response 200 (PDict [(''output'', PStr ''ok'')]))) ex_body_system 0)))) =
       [Post ''https://n8n.example/webhook/chat''
          (PDict [(''Authorization'', PStr ''Bearer ...''),
                  (''Content-Type'', PStr ''application/json'')])
          (PDict [(''sessionId'', PStr ''unknown_session''), (''chatInput'', PStr ''hello''),
                  (''systemPrompt'', PStr ''Be brief.'')])]"
  by code_simp

end
